theory Spec2Isabelle
  imports Complex_Main "HOL-Library.Signed_Division"
begin

section \<open>Errors\<close>

text \<open>
  The error classes of \<^verbatim>\<open>packages/shared/src/errors/index.ts\<close> that the modelled code
  throws, each with the arguments its constructor receives, together with the built-in
  JavaScript errors that the modelled code can raise: a plain \<^verbatim>\<open>Error\<close> with its message
  (thrown by the entity methods), the \<^verbatim>\<open>RangeError\<close> of \<^verbatim>\<open>BigInt(x)\<close> on a non-integral
  number, and the \<^verbatim>\<open>TypeError\<close> of a property read on \<^verbatim>\<open>undefined\<close>.
\<close>

datatype error =
    ContractNotFoundError string
  | SessionNotFoundError string
  | InsufficientFundsError int int
  | AlreadyInLobbyError
  | SessionAlreadySettledError string
  | ValidationError string
  | LobbyFullError
  | GameNotActiveError
  | SessionExpiredError string
  | UnauthorizedError string
  | JsError string
  | RangeError
  | TypeError

text \<open>The \<^verbatim>\<open>code\<close> and \<^verbatim>\<open>statusCode\<close> every \<^verbatim>\<open>PlutoError\<close> subclass passes to its base class.\<close>

fun code :: "error \<Rightarrow> string option" where
  "code (ContractNotFoundError _) = Some ''NOT_FOUND''"
| "code (SessionNotFoundError _) = Some ''NOT_FOUND''"
| "code (InsufficientFundsError _ _) = Some ''INSUFFICIENT_FUNDS''"
| "code AlreadyInLobbyError = Some ''CONFLICT''"
| "code (SessionAlreadySettledError _) = Some ''CONFLICT''"
| "code (ValidationError _) = Some ''VALIDATION_ERROR''"
| "code LobbyFullError = Some ''LOBBY_FULL''"
| "code GameNotActiveError = Some ''GAME_NOT_ACTIVE''"
| "code (SessionExpiredError _) = Some ''SESSION_EXPIRED''"
| "code (UnauthorizedError _) = Some ''UNAUTHORIZED''"
| "code (JsError _) = None"
| "code RangeError = None"
| "code TypeError = None"

fun statusCode :: "error \<Rightarrow> nat option" where
  "statusCode (ContractNotFoundError _) = Some 404"
| "statusCode (SessionNotFoundError _) = Some 404"
| "statusCode (InsufficientFundsError _ _) = Some 402"
| "statusCode AlreadyInLobbyError = Some 409"
| "statusCode (SessionAlreadySettledError _) = Some 409"
| "statusCode (ValidationError _) = Some 400"
| "statusCode LobbyFullError = Some 422"
| "statusCode GameNotActiveError = Some 422"
| "statusCode (SessionExpiredError _) = Some 422"
| "statusCode (UnauthorizedError _) = Some 401"
| "statusCode (JsError _) = None"
| "statusCode RangeError = None"
| "statusCode TypeError = None"

section \<open>Rendering numbers in messages\<close>

text \<open>Template strings interpolate bigints and numbers in decimal.\<close>

function show_nat :: "nat \<Rightarrow> string" where
  "show_nat n =
     (if n < 10 then [char_of (48 + n)]
      else show_nat (n div 10) @ [char_of (48 + n mod 10)])"
  by pat_completeness auto
termination
  by (relation "measure (\<lambda>n. n)") auto

declare show_nat.simps [simp del]

definition show_int :: "int \<Rightarrow> string" where
  "show_int i = (if i < 0 then CHR ''-'' # show_nat (nat (- i)) else show_nat (nat i))"

section \<open>The User entity\<close>

text \<open>
  \<^verbatim>\<open>class User\<close>: the two private bigint fields are the mutable state, the rest is
  read-only. A method that throws does so before its first assignment, so the model
  returns the outcome together with the object's state afterwards.
\<close>

record user =
  user_id :: string
  firebaseUid :: string
  displayName :: string
  balance :: int
  lockedBalance :: int

definition availableBalance :: "user \<Rightarrow> int" where
  "availableBalance u = balance u - lockedBalance u"

definition canAfford :: "user \<Rightarrow> int \<Rightarrow> bool" where
  "canAfford u amount \<longleftrightarrow> availableBalance u \<ge> amount"

definition lockFunds :: "int \<Rightarrow> user \<Rightarrow> (error + unit) \<times> user" where
  "lockFunds amount u =
     (if \<not> canAfford u amount
      then (Inl (JsError (''Insufficient funds: need '' @ show_int amount @ '', have ''
                           @ show_int (availableBalance u))), u)
      else (Inr (), u\<lparr>lockedBalance := lockedBalance u + amount\<rparr>))"

definition unlockFunds :: "int \<Rightarrow> user \<Rightarrow> (error + unit) \<times> user" where
  "unlockFunds amount u =
     (if amount > lockedBalance u
      then (Inl (JsError (''Cannot unlock '' @ show_int amount @ '', only ''
                           @ show_int (lockedBalance u) @ '' locked'')), u)
      else (Inr (), u\<lparr>lockedBalance := lockedBalance u - amount\<rparr>))"

definition deductLockedFunds :: "int \<Rightarrow> user \<Rightarrow> (error + unit) \<times> user" where
  "deductLockedFunds amount u =
     (if amount > lockedBalance u
      then (Inl (JsError (''Cannot deduct '' @ show_int amount @ '', only ''
                           @ show_int (lockedBalance u) @ '' locked'')), u)
      else (Inr (), u\<lparr>lockedBalance := lockedBalance u - amount,
                       balance := balance u - amount\<rparr>))"

definition addWinnings :: "int \<Rightarrow> user \<Rightarrow> (error + unit) \<times> user" where
  "addWinnings amount u = (Inr (), u\<lparr>balance := balance u + amount\<rparr>)"

definition deposit :: "int \<Rightarrow> user \<Rightarrow> (error + unit) \<times> user" where
  "deposit amount u =
     (if amount \<le> 0 then (Inl (JsError ''Deposit amount must be positive''), u)
      else (Inr (), u\<lparr>balance := balance u + amount\<rparr>))"

definition withdraw :: "int \<Rightarrow> user \<Rightarrow> (error + unit) \<times> user" where
  "withdraw amount u =
     (if \<not> canAfford u amount then (Inl (JsError ''Insufficient funds for withdrawal''), u)
      else (Inr (), u\<lparr>balance := balance u - amount\<rparr>))"

text \<open>The six balance-mutating methods, named so that a statement can range over them.\<close>

datatype balance_method =
  LockFunds | UnlockFunds | DeductLockedFunds | AddWinnings | Deposit | Withdraw

fun call :: "balance_method \<Rightarrow> int \<Rightarrow> user \<Rightarrow> (error + unit) \<times> user" where
  "call LockFunds = lockFunds"
| "call UnlockFunds = unlockFunds"
| "call DeductLockedFunds = deductLockedFunds"
| "call AddWinnings = addWinnings"
| "call Deposit = deposit"
| "call Withdraw = withdraw"

text \<open>The balance invariant of the data model.\<close>

definition balance_ok :: "user \<Rightarrow> bool" where
  "balance_ok u \<longleftrightarrow> 0 \<le> balance u \<and> 0 \<le> lockedBalance u \<and> lockedBalance u \<le> balance u"

section \<open>BigInt helpers\<close>

text \<open>
  \<^verbatim>\<open>distributeEvenly\<close>: bigint \<^verbatim>\<open>/\<close> truncates towards zero and \<^verbatim>\<open>%\<close> takes the
  sign of the dividend, which is \<open>sdiv\<close> and \<open>smod\<close>; \<^verbatim>\<open>count\<close> is an array length.
\<close>

definition distributeEvenly :: "int \<Rightarrow> nat \<Rightarrow> int list" where
  "distributeEvenly amount count =
     (if count = 0 then []
      else let base = amount sdiv int count;
               remainder = amount smod int count
           in map (\<lambda>i. if int i < remainder then base + 1 else base) [0..<count])"

section \<open>Contracts\<close>

text \<open>
  \<^verbatim>\<open>class Contract\<close>. \<^verbatim>\<open>platformFee\<close> is a JavaScript \<^verbatim>\<open>number\<close> ("Percentage 0-100");
  the route schema admits any number between 0 and 100, integral or not, and
  \<^verbatim>\<open>CreateContractUseCase\<close> checks the same range only. Every finite number is a rational,
  so the field is a \<open>rat\<close>. The player bounds and the TTL are integral numbers.
\<close>

record contract =
  contract_id :: string
  gameId :: string
  gameName :: string
  contract_name :: string
  entryFee :: int
  platformFee :: rat
  minPlayers :: int
  maxPlayers :: int
  ttlSeconds :: int
  isActive :: bool

text \<open>\<^verbatim>\<open>BigInt(x)\<close> on a number: the integer itself, or a \<^verbatim>\<open>RangeError\<close> when \<open>x\<close> is not integral.\<close>

definition BigInt :: "rat \<Rightarrow> error + int" where
  "BigInt x = (if of_int \<lfloor>x\<rfloor> = x then Inr \<lfloor>x\<rfloor> else Inl RangeError)"

definition calculateTotalPot :: "contract \<Rightarrow> nat \<Rightarrow> int" where
  "calculateTotalPot c playerCount = entryFee c * int playerCount"

definition calculatePlatformFee :: "contract \<Rightarrow> int \<Rightarrow> error + int" where
  "calculatePlatformFee c pot =
     (case BigInt (platformFee c) of
        Inl e \<Rightarrow> Inl e
      | Inr p \<Rightarrow> Inr ((pot * p) sdiv 100))"

definition calculatePrizePool :: "contract \<Rightarrow> int \<Rightarrow> error + int" where
  "calculatePrizePool c pot =
     (case calculatePlatformFee c pot of
        Inl e \<Rightarrow> Inl e
      | Inr fee \<Rightarrow> Inr (pot - fee))"

definition isValidPlayerCount :: "contract \<Rightarrow> nat \<Rightarrow> bool" where
  "isValidPlayerCount c count \<longleftrightarrow> int count \<ge> minPlayers c \<and> int count \<le> maxPlayers c"

section \<open>Game sessions\<close>

datatype gameSessionStatus = PENDING | ACTIVE | SETTLED | CANCELLED | EXPIRED

text \<open>\<^verbatim>\<open>session.status.toLowerCase()\<close>\<close>

fun statusLower :: "gameSessionStatus \<Rightarrow> string" where
  "statusLower PENDING = ''pending''"
| "statusLower ACTIVE = ''active''"
| "statusLower SETTLED = ''settled''"
| "statusLower CANCELLED = ''cancelled''"
| "statusLower EXPIRED = ''expired''"

record gameSessionPlayer =
  userId :: string
  player_displayName :: string
  amountLocked :: int
  isWinner :: bool
  winAmount :: int

text \<open>Dates are millisecond timestamps.\<close>

record gameSession =
  session_id :: string
  session_contractId :: string
  status :: gameSessionStatus
  totalPot :: int
  expiresAt :: int
  createdAt :: int
  settledAt :: "int option"
  players :: "gameSessionPlayer list"

definition isExpired :: "int \<Rightarrow> gameSession \<Rightarrow> bool" where
  "isExpired now s \<longleftrightarrow> now > expiresAt s"

definition getPlayer :: "gameSession \<Rightarrow> string \<Rightarrow> gameSessionPlayer option" where
  "getPlayer s uid = find (\<lambda>p. userId p = uid) (players s)"

section \<open>The ledger and the database\<close>

datatype ledgerEntryType = LOCK | UNLOCK | WIN | LOSE | FEE | DEPOSIT | WITHDRAW

text \<open>
  A ledger row as the use cases hand it to \<^verbatim>\<open>appendMany\<close>; the database adds the row id
  and the creation time.
\<close>

record ledgerEntry =
  entry_userId :: string
  entry_type :: ledgerEntryType
  entry_amount :: int
  balanceAfter :: int
  description :: string
  entry_sessionId :: "string option"

text \<open>
  The tables the repositories read and write. A \<^verbatim>\<open>findMany\<close> without \<^verbatim>\<open>orderBy\<close> returns
  the matching rows in table order, each row once.
\<close>

datatype lobbyStatus = WAITING | STARTING | IN_GAME | CLOSED

record lobbyRow =
  lobby_id :: string
  lobby_contractId :: string
  lobby_status :: lobbyStatus

record lobbyPlayerRow =
  lobbyPlayer_id :: string
  lobbyId :: string
  lobbyPlayer_userId :: string
  joinedAt :: int

record db =
  users :: "user list"
  contracts :: "contract list"
  gameSessions :: "gameSession list"
  ledgerEntries :: "ledgerEntry list"
  lobbies :: "lobbyRow list"
  lobbyPlayers :: "lobbyPlayerRow list"

definition findContractById :: "db \<Rightarrow> string \<Rightarrow> contract option" where
  "findContractById d cid = find (\<lambda>c. contract_id c = cid) (contracts d)"

definition findSessionById :: "db \<Rightarrow> string \<Rightarrow> gameSession option" where
  "findSessionById d sid = find (\<lambda>s. session_id s = sid) (gameSessions d)"

definition findByFirebaseUid :: "db \<Rightarrow> string \<Rightarrow> user option" where
  "findByFirebaseUid d uid = find (\<lambda>u. firebaseUid u = uid) (users d)"

definition findByIds :: "db \<Rightarrow> string list \<Rightarrow> user list" where
  "findByIds d ids = filter (\<lambda>u. user_id u \<in> set ids) (users d)"

definition findByFirebaseUids :: "db \<Rightarrow> string list \<Rightarrow> user list" where
  "findByFirebaseUids d uids = filter (\<lambda>u. firebaseUid u \<in> set uids) (users d)"

definition updateBalance :: "string \<Rightarrow> int \<Rightarrow> int \<Rightarrow> db \<Rightarrow> db" where
  "updateBalance uid b l d =
     d\<lparr>users := map (\<lambda>u. if user_id u = uid then u\<lparr>balance := b, lockedBalance := l\<rparr> else u)
                    (users d)\<rparr>"

definition appendMany :: "ledgerEntry list \<Rightarrow> db \<Rightarrow> db" where
  "appendMany es d = d\<lparr>ledgerEntries := ledgerEntries d @ es\<rparr>"

section \<open>Settle\<close>

text \<open>\<^verbatim>\<open>PlayerResult\<close>: \<^verbatim>\<open>winAmount\<close> is optional ("custom amount, otherwise calculated").\<close>

record playerResult =
  playerId :: string
  result_isWinner :: bool
  result_winAmount :: "int option"

text \<open>The five fields of \<^verbatim>\<open>SessionTokenPayload\<close>; the ISO date is the timestamp it denotes.\<close>

record sessionTokenPayload =
  sessionId :: string
  contractId :: string
  playerIds :: "string list"
  payload_totalPot :: string
  payload_expiresAt :: int

record winnerShare =
  share_playerId :: string
  share_amount :: int

record settledWinner =
  winner_id :: string
  winner_displayName :: string
  amountWon :: int

record settleContractResult =
  settled_sessionId :: string
  winners :: "settledWinner list"
  platformFeeCollected :: int

text \<open>
  \<^verbatim>\<open>winners.map((w, i) => ({ playerId: w.playerId, amount: w.winAmount ?? winAmounts[i] }))\<close>
  with \<^verbatim>\<open>winAmounts = distributeEvenly(prizePool, winners.length)\<close>, which has one entry
  for every index of \<^verbatim>\<open>winners\<close>.
\<close>

definition winnerDistribution :: "int \<Rightarrow> playerResult list \<Rightarrow> winnerShare list" where
  "winnerDistribution prizePool ws =
     (let winAmounts = distributeEvenly prizePool (length ws)
      in map (\<lambda>(w, i). \<lparr>share_playerId = playerId w,
                         share_amount = (case result_winAmount w of
                                           Some a \<Rightarrow> a
                                         | None \<Rightarrow> winAmounts ! i)\<rparr>)
             (zip ws [0..<length ws]))"

text \<open>
  The loop of step 7 over the users read by \<^verbatim>\<open>findByIds\<close>. Each iteration works on the
  entity read before the loop, pushes its ledger rows, and writes the entity's balances
  back with \<^verbatim>\<open>updateBalance\<close>. A throw leaves the database as the earlier iterations
  wrote it.
\<close>

fun settleUsers ::
  "gameSession \<Rightarrow> winnerShare list \<Rightarrow> user list \<Rightarrow> ledgerEntry list \<Rightarrow> settledWinner list
     \<Rightarrow> db \<Rightarrow> (error + ledgerEntry list \<times> settledWinner list) \<times> db" where
  "settleUsers s wd [] es sw d = (Inr (es, sw), d)"
| "settleUsers s wd (u # us) es sw d =
     (case getPlayer s (user_id u) of
        None \<Rightarrow> (Inl TypeError, d)
      | Some player \<Rightarrow>
          (case deductLockedFunds (amountLocked player) u of
             (Inl e, _) \<Rightarrow> (Inl e, d)
           | (Inr _, u1) \<Rightarrow>
               (let es1 = es @ [\<lparr>entry_userId = user_id u1, entry_type = LOSE,
                                  entry_amount = amountLocked player, balanceAfter = balance u1,
                                  description = ''Game entry fee deducted'',
                                  entry_sessionId = Some (session_id s)\<rparr>]
                in case find (\<lambda>w. share_playerId w = user_id u1) wd of
                     None \<Rightarrow>
                       settleUsers s wd us es1 sw
                         (updateBalance (user_id u1) (balance u1) (lockedBalance u1) d)
                   | Some winnerInfo \<Rightarrow>
                       (case addWinnings (share_amount winnerInfo) u1 of
                          (Inl e, _) \<Rightarrow> (Inl e, d)
                        | (Inr _, u2) \<Rightarrow>
                            settleUsers s wd us
                              (es1 @ [\<lparr>entry_userId = user_id u2, entry_type = WIN,
                                        entry_amount = share_amount winnerInfo,
                                        balanceAfter = balance u2,
                                        description = ''Game winnings'',
                                        entry_sessionId = Some (session_id s)\<rparr>])
                              (sw @ [\<lparr>winner_id = user_id u2,
                                       winner_displayName = displayName u2,
                                       amountWon = share_amount winnerInfo\<rparr>])
                              (updateBalance (user_id u2) (balance u2) (lockedBalance u2) d)))))"

text \<open>
  \<^verbatim>\<open>PrismaSessionRepository.settle\<close>: one \<^verbatim>\<open>updateMany\<close> per result on the session's player
  rows with that user id, in the order of the results, then the session row.
\<close>

definition applyResult ::
  "gameSessionPlayer list \<Rightarrow> string \<times> bool \<times> int \<Rightarrow> gameSessionPlayer list" where
  "applyResult ps r =
     (case r of (pid, w, a) \<Rightarrow>
        map (\<lambda>p. if userId p = pid then p\<lparr>isWinner := w, winAmount := a\<rparr> else p) ps)"

definition settleSession :: "int \<Rightarrow> string \<Rightarrow> (string \<times> bool \<times> int) list \<Rightarrow> db \<Rightarrow> db" where
  "settleSession now sid rs d =
     d\<lparr>gameSessions :=
         map (\<lambda>s. if session_id s = sid
                  then s\<lparr>players := foldl applyResult (players s) rs,
                         status := SETTLED, settledAt := Some now\<rparr>
                  else s)
             (gameSessions d)\<rparr>"

text \<open>
  \<^verbatim>\<open>SettleContractUseCase.execute\<close>. The token verifier is injected through the
  constructor; \<open>now\<close> is the clock.
\<close>

definition SettleContract_execute ::
  "(string \<Rightarrow> sessionTokenPayload option) \<Rightarrow> int \<Rightarrow> string \<Rightarrow> playerResult list \<Rightarrow> db
     \<Rightarrow> (error + settleContractResult) \<times> db" where
  "SettleContract_execute verifySessionToken now sessionToken results d =
     (case verifySessionToken sessionToken of
        None \<Rightarrow> (Inl (ValidationError ''Invalid or expired session token''), d)
      | Some payload \<Rightarrow>
     (case findSessionById d (sessionId payload) of
        None \<Rightarrow> (Inl (SessionNotFoundError (sessionId payload)), d)
      | Some session \<Rightarrow>
     if status session = SETTLED then (Inl (SessionAlreadySettledError (session_id session)), d)
     else if status session = CANCELLED \<or> status session = EXPIRED
       then (Inl (ValidationError (''Session is '' @ statusLower (status session))), d)
     else if isExpired now session then (Inl (SessionExpiredError (session_id session)), d)
     else
       let sessionPlayerIds = map userId (players session);
           resultPlayerIds = map playerId results
       in
     (case find (\<lambda>pid. pid \<notin> set resultPlayerIds) sessionPlayerIds of
        Some pid \<Rightarrow> (Inl (ValidationError (''Missing result for player '' @ pid)), d)
      | None \<Rightarrow>
     (case findContractById d (session_contractId session) of
        None \<Rightarrow> (Inl (ValidationError ''Contract not found''), d)
      | Some contract \<Rightarrow>
     (case calculatePlatformFee contract (totalPot session) of
        Inl e \<Rightarrow> (Inl e, d)
      | Inr platformFee' \<Rightarrow>
     (case calculatePrizePool contract (totalPot session) of
        Inl e \<Rightarrow> (Inl e, d)
      | Inr prizePool \<Rightarrow>
       let ws = filter result_isWinner results in
       if length ws = 0 then (Inl (ValidationError ''At least one winner required''), d)
       else
         let wd = winnerDistribution prizePool ws in
     (case settleUsers session wd (findByIds d sessionPlayerIds) [] [] d of
        (Inl e, d1) \<Rightarrow> (Inl e, d1)
      | (Inr (es, sw), d1) \<Rightarrow>
          (Inr \<lparr>settled_sessionId = session_id session, winners = sw,
                platformFeeCollected = platformFee'\<rparr>,
           settleSession now (session_id session)
             (map (\<lambda>r. (playerId r, result_isWinner r,
                         case find (\<lambda>w. share_playerId w = playerId r) wd of
                           Some w \<Rightarrow> share_amount w
                         | None \<Rightarrow> 0))
                  results)
             (appendMany es d1)))))))))"

section \<open>Execute\<close>

record executedPlayer =
  executed_id :: string
  executed_displayName :: string
  executed_amountLocked :: int

record executeContractResult =
  executed_sessionId :: string
  sessionToken :: string
  executed_players :: "executedPlayer list"
  executed_totalPot :: int
  executed_expiresAt :: int

text \<open>\<^verbatim>\<open>Array.prototype.join\<close>\<close>

fun join :: "string \<Rightarrow> string list \<Rightarrow> string" where
  "join sep [] = []"
| "join sep [x] = x"
| "join sep (x # y # ys) = x @ sep @ join sep (y # ys)"

text \<open>\<^verbatim>\<open>addSeconds\<close>, with the clock as an argument.\<close>

definition addSeconds :: "int \<Rightarrow> int \<Rightarrow> int" where
  "addSeconds now seconds = now + seconds * 1000"

text \<open>
  \<^verbatim>\<open>PrismaSessionRepository.create\<close>: the database chooses the new row's id (the argument
  \<open>newId\<close>) and its creation time. The repository passes the user id and the locked
  amount of each player row; the columns \<^verbatim>\<open>isWinner\<close> and \<^verbatim>\<open>winAmount\<close> get the
  defaults of the schema, which is not among the sources: the caller supplies the rows
  with \<open>False\<close> and \<open>0\<close>, the values a session has before it is settled.
\<close>

definition createSession ::
  "string \<Rightarrow> int \<Rightarrow> string \<Rightarrow> int \<Rightarrow> int \<Rightarrow> gameSessionPlayer list \<Rightarrow> db \<Rightarrow> gameSession \<times> db" where
  "createSession newId now cid pot expires ps d =
     (let s = \<lparr>session_id = newId, session_contractId = cid, status = PENDING,
                totalPot = pot, expiresAt = expires, createdAt = now, settledAt = None,
                players = ps\<rparr>
      in (s, d\<lparr>gameSessions := gameSessions d @ [s]\<rparr>))"

text \<open>The loop of step 7: lock, write the balances back, push the ledger row.\<close>

fun lockUsers ::
  "contract \<Rightarrow> gameSession \<Rightarrow> user list \<Rightarrow> ledgerEntry list \<Rightarrow> db
     \<Rightarrow> (error + ledgerEntry list) \<times> db" where
  "lockUsers c s [] es d = (Inr es, d)"
| "lockUsers c s (u # us) es d =
     (case lockFunds (entryFee c) u of
        (Inl e, _) \<Rightarrow> (Inl e, d)
      | (Inr _, u1) \<Rightarrow>
          lockUsers c s us
            (es @ [\<lparr>entry_userId = user_id u1, entry_type = LOCK, entry_amount = entryFee c,
                     balanceAfter = balance u1,
                     description = ''Locked for '' @ gameName c @ '': '' @ contract_name c,
                     entry_sessionId = Some (session_id s)\<rparr>])
            (updateBalance (user_id u1) (balance u1) (lockedBalance u1) d))"

text \<open>
  \<^verbatim>\<open>ExecuteContractUseCase.execute\<close>. The token generator is injected through the
  constructor; \<open>now\<close> is the clock and \<open>newId\<close> the id the database gives the session.
\<close>

definition ExecuteContract_execute ::
  "(sessionTokenPayload \<Rightarrow> string) \<Rightarrow> int \<Rightarrow> string \<Rightarrow> string \<Rightarrow> string list \<Rightarrow> db
     \<Rightarrow> (error + executeContractResult) \<times> db" where
  "ExecuteContract_execute generateSessionToken now newId cid playerFirebaseUids d =
     (case findContractById d cid of
        None \<Rightarrow> (Inl (ContractNotFoundError cid), d)
      | Some contract \<Rightarrow>
     if \<not> isActive contract then (Inl GameNotActiveError, d)
     else
       let playerCount = length playerFirebaseUids in
     if \<not> isValidPlayerCount contract playerCount
       then (Inl (ValidationError (''Invalid player count: '' @ show_int (int playerCount)
                    @ ''. Contract requires '' @ show_int (minPlayers contract) @ ''-''
                    @ show_int (maxPlayers contract) @ '' players'')), d)
     else
       let us = findByFirebaseUids d playerFirebaseUids in
     if length us \<noteq> playerCount
       then (let foundUids = map firebaseUid us;
                 missingUids = filter (\<lambda>uid. uid \<notin> set foundUids) playerFirebaseUids
             in (Inl (ValidationError (''Users not found: '' @ join '', '' missingUids)), d))
     else
     (case find (\<lambda>u. \<not> canAfford u (entryFee contract)) us of
        Some u \<Rightarrow> (Inl (InsufficientFundsError (entryFee contract) (availableBalance u)), d)
      | None \<Rightarrow>
       let pot = calculateTotalPot contract playerCount;
           expires = addSeconds now (ttlSeconds contract)
       in
     (case createSession newId now (contract_id contract) pot expires
             (map (\<lambda>u. \<lparr>userId = user_id u, player_displayName = displayName u,
                          amountLocked = entryFee contract, isWinner = False, winAmount = 0\<rparr>) us)
             d of
        (session, d1) \<Rightarrow>
     (case lockUsers contract session us [] d1 of
        (Inl e, d2) \<Rightarrow> (Inl e, d2)
      | (Inr es, d2) \<Rightarrow>
          (Inr \<lparr>executed_sessionId = session_id session,
                sessionToken = generateSessionToken
                  \<lparr>sessionId = session_id session, contractId = contract_id contract,
                   playerIds = map user_id us, payload_totalPot = show_int pot,
                   payload_expiresAt = expires\<rparr>,
                executed_players =
                  map (\<lambda>p. \<lparr>executed_id = userId p, executed_displayName = player_displayName p,
                               executed_amountLocked = amountLocked p\<rparr>) (players session),
                executed_totalPot = pot, executed_expiresAt = expires\<rparr>,
           appendMany es d2)))))"

section \<open>The session-token codec\<close>

text \<open>
  \<^verbatim>\<open>generateSessionToken\<close> and \<^verbatim>\<open>verifySessionToken\<close> of the server's entry point. The
  JSON values they exchange:
\<close>

datatype json =
    JNull
  | JBool bool
  | JNumber int
  | JString string
  | JArray "json list"
  | JObject "(string \<times> json) list"

text \<open>
  The functions of the JavaScript platform the codec calls, as parameters:
  \<^verbatim>\<open>JSON.stringify\<close>; \<^verbatim>\<open>JSON.parse\<close> (\<open>None\<close> when it throws);
  \<^verbatim>\<open>Buffer.from(s).toString('base64url')\<close>;
  \<^verbatim>\<open>Buffer.from(b, 'base64url').toString('utf-8')\<close>; and
  \<^verbatim>\<open>crypto.createHmac('sha256', key).update(msg).digest('base64url')\<close>.
\<close>

record platform =
  JSON_stringify :: "json \<Rightarrow> string"
  JSON_parse :: "string \<Rightarrow> json option"
  to_base64url :: "string \<Rightarrow> string"
  from_base64url :: "string \<Rightarrow> string"
  hmac_sha256 :: "string \<Rightarrow> string \<Rightarrow> string"

text \<open>\<^verbatim>\<open>String.prototype.split\<close> on a one-character separator.\<close>

fun split :: "char \<Rightarrow> string \<Rightarrow> string list" where
  "split c [] = [[]]"
| "split c (x # xs) =
     (if x = c then [] # split c xs
      else (case split c xs of
              [] \<Rightarrow> [[x]]
            | y # ys \<Rightarrow> (x # y) # ys))"

text \<open>
  \<^verbatim>\<open>{ ...payload, iat: Date.now() }\<close>: the payload's properties in their order, with
  \<^verbatim>\<open>iat\<close> replaced in place when the payload has one and added at the end otherwise.
\<close>

fun setProperty :: "string \<Rightarrow> json \<Rightarrow> (string \<times> json) list \<Rightarrow> (string \<times> json) list" where
  "setProperty k v [] = [(k, v)]"
| "setProperty k v ((k', v') # ps) =
     (if k' = k then (k, v) # ps else (k', v') # setProperty k v ps)"

definition tokenHeader :: "platform \<Rightarrow> string" where
  "tokenHeader P =
     to_base64url P (JSON_stringify P (JObject [(''alg'', JString ''HS256''),
                                                 (''typ'', JString ''JWT'')]))"

definition tokenBody :: "platform \<Rightarrow> int \<Rightarrow> (string \<times> json) list \<Rightarrow> string" where
  "tokenBody P now payload =
     to_base64url P (JSON_stringify P (JObject (setProperty ''iat'' (JNumber now) payload)))"

definition generateSessionToken ::
  "platform \<Rightarrow> string \<Rightarrow> int \<Rightarrow> (string \<times> json) list \<Rightarrow> string" where
  "generateSessionToken P jwtSecret now payload =
     (let header = tokenHeader P;
          body = tokenBody P now payload;
          signature = hmac_sha256 P jwtSecret (header @ ''.'' @ body)
      in header @ ''.'' @ body @ ''.'' @ signature)"

text \<open>
  The destructuring \<^verbatim>\<open>[header, body, signature] = token.split('.')\<close> takes the first
  three segments and drops the rest. With fewer than three segments \<^verbatim>\<open>signature\<close> is
  \<^verbatim>\<open>undefined\<close>, which differs from every digest, so the function returns \<^verbatim>\<open>null\<close>.
\<close>

definition verifySessionToken :: "platform \<Rightarrow> string \<Rightarrow> string \<Rightarrow> json option" where
  "verifySessionToken P jwtSecret token =
     (case split CHR ''.'' token of
        header # body # signature # _ \<Rightarrow>
          (let expectedSig = hmac_sha256 P jwtSecret (header @ ''.'' @ body)
           in if signature \<noteq> expectedSig then None
              else JSON_parse P (from_base64url P body))
      | _ \<Rightarrow> None)"

section \<open>Joining a lobby\<close>

record lobbyPlayer =
  player_id :: string
  player_lobbyId :: string
  player_userId :: string
  player_joinedAt :: int

text \<open>\<^verbatim>\<open>class Lobby\<close>, with the fields the modelled code reads.\<close>

record lobby =
  id_of_lobby :: string
  contractId_of_lobby :: string
  entryFee_of_lobby :: int
  minPlayers_of_lobby :: int
  maxPlayers_of_lobby :: int
  status_of_lobby :: lobbyStatus
  players_of_lobby :: "lobbyPlayer list"

definition currentPlayers :: "lobby \<Rightarrow> nat" where
  "currentPlayers l = length (players_of_lobby l)"

definition isFull :: "lobby \<Rightarrow> bool" where
  "isFull l \<longleftrightarrow> int (length (players_of_lobby l)) \<ge> maxPlayers_of_lobby l"

definition isReady :: "lobby \<Rightarrow> bool" where
  "isReady l \<longleftrightarrow> int (length (players_of_lobby l)) \<ge> minPlayers_of_lobby l"

text \<open>
  \<^verbatim>\<open>PrismaLobbyRepository.toEntity\<close> on a lobby row with its contract and its player rows
  included; the contract of a lobby row exists by the foreign key.
\<close>

definition toEntity :: "db \<Rightarrow> lobbyRow \<Rightarrow> lobby option" where
  "toEntity d row =
     (case findContractById d (lobby_contractId row) of
        None \<Rightarrow> None
      | Some c \<Rightarrow>
          Some \<lparr>id_of_lobby = lobby_id row, contractId_of_lobby = lobby_contractId row,
                entryFee_of_lobby = entryFee c, minPlayers_of_lobby = minPlayers c,
                maxPlayers_of_lobby = maxPlayers c, status_of_lobby = lobby_status row,
                players_of_lobby =
                  map (\<lambda>p. \<lparr>player_id = lobbyPlayer_id p, player_lobbyId = lobbyId p,
                               player_userId = lobbyPlayer_userId p,
                               player_joinedAt = joinedAt p\<rparr>)
                      (filter (\<lambda>p. lobbyId p = lobby_id row) (lobbyPlayers d))\<rparr>)"

definition findLobbyById :: "db \<Rightarrow> string \<Rightarrow> lobby option" where
  "findLobbyById d lid =
     (case find (\<lambda>l. lobby_id l = lid) (lobbies d) of
        None \<Rightarrow> None
      | Some row \<Rightarrow> toEntity d row)"

text \<open>
  \<^verbatim>\<open>findByUserId\<close>: the first player row of the user, and \<^verbatim>\<open>null\<close> when there is none or
  its lobby is closed or in game.
\<close>

definition findLobbyByUserId :: "db \<Rightarrow> string \<Rightarrow> lobby option" where
  "findLobbyByUserId d uid =
     (case find (\<lambda>p. lobbyPlayer_userId p = uid) (lobbyPlayers d) of
        None \<Rightarrow> None
      | Some p \<Rightarrow>
          (case find (\<lambda>l. lobby_id l = lobbyId p) (lobbies d) of
             None \<Rightarrow> None
           | Some row \<Rightarrow>
               if lobby_status row = CLOSED \<or> lobby_status row = IN_GAME then None
               else toEntity d row))"

text \<open>
  \<^verbatim>\<open>getOrCreateWaitingLobby\<close>: the first waiting lobby of the contract when it has room,
  otherwise a new lobby row, whose id the database chooses (\<open>newLobbyId\<close>).
\<close>

definition getOrCreateWaitingLobby :: "string \<Rightarrow> string \<Rightarrow> db \<Rightarrow> lobby option \<times> db" where
  "getOrCreateWaitingLobby newLobbyId cid d =
     (let create =
            (let row = \<lparr>lobby_id = newLobbyId, lobby_contractId = cid, lobby_status = WAITING\<rparr>;
                 d1 = d\<lparr>lobbies := lobbies d @ [row]\<rparr>
             in (toEntity d1 row, d1))
      in case find (\<lambda>l. lobby_contractId l = cid \<and> lobby_status l = WAITING) (lobbies d) of
           None \<Rightarrow> create
         | Some existing \<Rightarrow>
             (case toEntity d existing of
                None \<Rightarrow> create
              | Some l \<Rightarrow>
                  if int (length (players_of_lobby l)) < maxPlayers_of_lobby l
                  then (Some l, d) else create))"

definition addPlayer :: "string \<Rightarrow> int \<Rightarrow> string \<Rightarrow> string \<Rightarrow> db \<Rightarrow> lobbyPlayer \<times> db" where
  "addPlayer newPlayerId now lid uid d =
     (\<lparr>player_id = newPlayerId, player_lobbyId = lid, player_userId = uid,
        player_joinedAt = now\<rparr>,
      d\<lparr>lobbyPlayers := lobbyPlayers d
           @ [\<lparr>lobbyPlayer_id = newPlayerId, lobbyId = lid, lobbyPlayer_userId = uid,
                joinedAt = now\<rparr>]\<rparr>)"

datatype lobbyEvent =
    player_joined string string int
  | lobby_starting nat

record contractInfo =
  info_entryFee :: int
  info_minPlayers :: int
  info_maxPlayers :: int

record joinLobbyInput =
  input_userId :: string
  input_displayName :: string
  input_contractId :: string
  userBalance :: int

record joinLobbyResult =
  joined_lobbyId :: string
  position :: nat
  joined_currentPlayers :: nat
  joined_minPlayers :: int
  joined_maxPlayers :: int
  joined_isReady :: bool

text \<open>
  \<^verbatim>\<open>JoinLobbyUseCase.execute\<close>. The result carries the database and the events handed to
  the broadcaster, in order. \<^verbatim>\<open>getContractInfo\<close> is injected through the constructor.
\<close>

definition JoinLobby_execute ::
  "(string \<Rightarrow> contractInfo option) \<Rightarrow> int \<Rightarrow> string \<Rightarrow> string \<Rightarrow> joinLobbyInput \<Rightarrow> db
     \<Rightarrow> (error + joinLobbyResult) \<times> db \<times> (string \<times> lobbyEvent) list" where
  "JoinLobby_execute getContractInfo now newLobbyId newPlayerId input d =
     (case findLobbyByUserId d (input_userId input) of
        Some existingLobby \<Rightarrow> (Inl AlreadyInLobbyError, d, [])
      | None \<Rightarrow>
     (case getContractInfo (input_contractId input) of
        None \<Rightarrow> (Inl (ContractNotFoundError (input_contractId input)), d, [])
      | Some contract \<Rightarrow>
     if userBalance input < info_entryFee contract
       then (Inl (InsufficientFundsError (info_entryFee contract) (userBalance input)), d, [])
     else
     (case getOrCreateWaitingLobby newLobbyId (input_contractId input) d of
        (None, d1) \<Rightarrow> (Inl TypeError, d1, [])
      | (Some l, d1) \<Rightarrow>
     if isFull l then (Inl LobbyFullError, d1, [])
     else
     (case addPlayer newPlayerId now (id_of_lobby l) (input_userId input) d1 of
        (player, d2) \<Rightarrow>
       let ev1 = [(id_of_lobby l,
                   player_joined (player_id player) (input_displayName input)
                     (player_joinedAt player))];
           updatedLobby = findLobbyById d2 (id_of_lobby l);
           ready = (case updatedLobby of None \<Rightarrow> False | Some ul \<Rightarrow> isReady ul);
           ev2 = (if ready \<and> map_option (\<lambda>ul. int (currentPlayers ul)) updatedLobby
                              = map_option maxPlayers_of_lobby updatedLobby
                  then [(id_of_lobby l, lobby_starting 5)] else []);
           n = (case updatedLobby of None \<Rightarrow> 1 | Some ul \<Rightarrow> currentPlayers ul)
       in (Inr \<lparr>joined_lobbyId = id_of_lobby l, position = n, joined_currentPlayers = n,
                 joined_minPlayers = info_minPlayers contract,
                 joined_maxPlayers = info_maxPlayers contract, joined_isReady = ready\<rparr>,
           d2, ev1 @ ev2)))))"

text \<open>
  The wiring of the server's entry point: \<^verbatim>\<open>getUserByFirebaseUid\<close> hands the route the
  user's id, display name and \<^verbatim>\<open>balance\<close>, and \<^verbatim>\<open>getContractInfo\<close> reads the contract.
\<close>

record routeUser =
  route_id :: string
  route_displayName :: string
  route_balance :: int

definition getUserByFirebaseUid :: "db \<Rightarrow> string \<Rightarrow> routeUser option" where
  "getUserByFirebaseUid d uid =
     (case findByFirebaseUid d uid of
        None \<Rightarrow> None
      | Some u \<Rightarrow> Some \<lparr>route_id = user_id u, route_displayName = displayName u,
                        route_balance = balance u\<rparr>)"

definition getContractInfo :: "db \<Rightarrow> string \<Rightarrow> contractInfo option" where
  "getContractInfo d cid =
     (case findContractById d cid of
        None \<Rightarrow> None
      | Some c \<Rightarrow> Some \<lparr>info_entryFee = entryFee c, info_minPlayers = minPlayers c,
                        info_maxPlayers = maxPlayers c\<rparr>)"

text \<open>
  The handler of \<^verbatim>\<open>POST /lobby/join\<close> for a bearer token that the identity provider
  resolved to the subject \<open>uid\<close>, and a body that passed the schema.
\<close>

definition lobby_join ::
  "int \<Rightarrow> string \<Rightarrow> string \<Rightarrow> string \<Rightarrow> string \<Rightarrow> db
     \<Rightarrow> (error + joinLobbyResult) \<times> db \<times> (string \<times> lobbyEvent) list" where
  "lobby_join now newLobbyId newPlayerId uid cid d =
     (case getUserByFirebaseUid d uid of
        None \<Rightarrow> (Inl (UnauthorizedError ''Invalid token''), d, [])
      | Some u \<Rightarrow>
          JoinLobby_execute (getContractInfo d) now newLobbyId newPlayerId
            \<lparr>input_userId = route_id u, input_displayName = route_displayName u,
             input_contractId = cid, userBalance = route_balance u\<rparr> d)"

section \<open>Scenarios\<close>

text \<open>
  The data of the end-to-end scenarios: two users with 1000 each, a two-player contract
  with entry fee 100 and a platform fee of 5 percent, and the session that Execute
  creates for them (both have 100 locked).
\<close>

definition alice :: user where
  "alice = \<lparr>user_id = ''A'', firebaseUid = ''fa'', displayName = ''Alice'',
            balance = 1000, lockedBalance = 0\<rparr>"

definition bob :: user where
  "bob = \<lparr>user_id = ''B'', firebaseUid = ''fb'', displayName = ''Bob'',
          balance = 1000, lockedBalance = 0\<rparr>"

definition carol :: user where
  "carol = \<lparr>user_id = ''C'', firebaseUid = ''fc'', displayName = ''Carol'',
            balance = 50, lockedBalance = 0\<rparr>"

definition dave :: user where
  "dave = \<lparr>user_id = ''D'', firebaseUid = ''fd'', displayName = ''Dave'',
           balance = 100, lockedBalance = 100\<rparr>"

definition quickMatch :: contract where
  "quickMatch = \<lparr>contract_id = ''c1'', gameId = ''g1'', gameName = ''DiceRoyale'',
                 contract_name = ''Quick Match'', entryFee = 100, platformFee = 5,
                 minPlayers = 2, maxPlayers = 2, ttlSeconds = 3600, isActive = True\<rparr>"

definition cheapMatch :: contract where
  "cheapMatch = quickMatch\<lparr>contract_id := ''c2'', entryFee := 50\<rparr>"

definition sigma :: gameSession where
  "sigma = \<lparr>session_id = ''s1'', session_contractId = ''c1'', status = PENDING,
            totalPot = 200, expiresAt = 3600000, createdAt = 0, settledAt = None,
            players = [\<lparr>userId = ''A'', player_displayName = ''Alice'', amountLocked = 100,
                         isWinner = False, winAmount = 0\<rparr>,
                       \<lparr>userId = ''B'', player_displayName = ''Bob'', amountLocked = 100,
                         isWinner = False, winAmount = 0\<rparr>]\<rparr>"

text \<open>Before Execute, and after it.\<close>

definition db0 :: db where
  "db0 = \<lparr>users = [alice, bob, carol, dave], contracts = [quickMatch, cheapMatch],
          gameSessions = [], ledgerEntries = [], lobbies = [], lobbyPlayers = []\<rparr>"

definition db1 :: db where
  "db1 = db0\<lparr>users := [alice\<lparr>lockedBalance := 100\<rparr>, bob\<lparr>lockedBalance := 100\<rparr>, carol, dave],
             gameSessions := [sigma]\<rparr>"

text \<open>A verifier that accepts the one token \<open>''tok''\<close>, for the session \<open>sigma\<close>.\<close>

definition sigmaPayload :: sessionTokenPayload where
  "sigmaPayload = \<lparr>sessionId = ''s1'', contractId = ''c1'', playerIds = [''A'', ''B''],
                   payload_totalPot = ''200'', payload_expiresAt = 3600000\<rparr>"

definition acceptTok :: "string \<Rightarrow> sessionTokenPayload option" where
  "acceptTok t = (if t = ''tok'' then Some sigmaPayload else None)"

definition result :: "string \<Rightarrow> bool \<Rightarrow> int option \<Rightarrow> playerResult" where
  "result pid w a = \<lparr>playerId = pid, result_isWinner = w, result_winAmount = a\<rparr>"

text \<open>
  A stand-in platform for the token codec, small enough to evaluate: its encodings and
  digests are free of dots, and it renders and parses the two objects of the scenario.
\<close>

definition samplePayload :: "(string \<times> json) list" where
  "samplePayload = [(''sessionId'', JString ''s1''), (''contractId'', JString ''c1''),
                    (''playerIds'', JArray [JString ''A'', JString ''B'']),
                    (''totalPot'', JString ''200''),
                    (''expiresAt'', JString ''1970-01-01T01:00:00.000Z'')]"

definition samplePlatform :: platform where
  "samplePlatform =
     \<lparr>JSON_stringify = (\<lambda>j. if j = JObject (setProperty ''iat'' (JNumber 7) samplePayload)
                              then ''body'' else ''header''),
      JSON_parse = (\<lambda>s. if s = ''body''
                         then Some (JObject (setProperty ''iat'' (JNumber 7) samplePayload))
                         else None),
      to_base64url = filter (\<lambda>c. c \<noteq> CHR ''.''),
      from_base64url = (\<lambda>s. s),
      hmac_sha256 = (\<lambda>key msg. filter (\<lambda>c. c \<noteq> CHR ''.'') (key @ '':'' @ msg))\<rparr>"

section \<open>The balance invariant\<close>

text \<open>
  Claim C10. From a state with \<open>balance \<ge> 0\<close> and \<open>0 \<le> lockedBalance \<le> balance\<close>, and
  for a non-negative amount, each of lockFunds, unlockFunds, deductLockedFunds,
  addWinnings, deposit and withdraw either throws and leaves the state as it was, or
  returns in a state that satisfies the invariant again. So no call that would break
  the invariant returns normally.
\<close>

theorem balance_methods_preserve_invariant:
  assumes "balance_ok u" and "0 \<le> amount" and "call m amount u = (r, u')"
  shows "(isl r \<and> u' = u) \<or> (\<not> isl r \<and> balance_ok u')"
  using assms
  by (cases m)
     (auto simp: balance_ok_def lockFunds_def unlockFunds_def deductLockedFunds_def
        addWinnings_def deposit_def withdraw_def canAfford_def availableBalance_def
        split: if_splits)

theorem balance_methods_preserve_invariant_witness:
  "balance_ok alice \<and> (0::int) \<le> 100
   \<and> call LockFunds 100 alice = (Inr (), alice\<lparr>lockedBalance := 100\<rparr>)
   \<and> balance_ok (alice\<lparr>lockedBalance := 100\<rparr>)
   \<and> call LockFunds 100 carol = (Inl (JsError ''Insufficient funds: need 100, have 50''), carol)"
proof -
  have h1: "balance_ok alice" by code_simp
  have h2: "(0::int) \<le> 100" by simp
  have h3: "call LockFunds 100 alice = (Inr (), alice\<lparr>lockedBalance := 100\<rparr>)" by code_simp
  have h4: "call LockFunds 100 carol = (Inl (JsError ''Insufficient funds: need 100, have 50''), carol)"
    by code_simp
  from balance_methods_preserve_invariant [OF h1 h2 h3]
  have "balance_ok (alice\<lparr>lockedBalance := 100\<rparr>)" by simp
  with h1 h2 h3 h4 show ?thesis by blast
qed

section \<open>The default distribution\<close>

lemma sdiv_smod_nonneg:
  fixes a b :: int
  assumes "0 \<le> a" "0 < b"
  shows "a sdiv b = a div b" "a smod b = a mod b"
  using assms by (simp_all add: signed_divide_int_def signed_modulo_int_def sgn_if)

lemma length_distributeEvenly [simp]: "length (distributeEvenly a n) = n"
  by (simp add: distributeEvenly_def Let_def)

lemma distributeEvenly_nth:
  assumes "0 \<le> a" "i < n"
  shows "distributeEvenly a n ! i = a div int n + (if int i < a mod int n then 1 else 0)"
  using assms by (simp add: distributeEvenly_def Let_def sdiv_smod_nonneg)

lemma sum_bump:
  fixes b r :: int
  assumes "0 \<le> r" "r \<le> int n"
  shows "(\<Sum>i = 0..<n. b + (if int i < r then 1 else 0)) = int n * b + r"
proof -
  have "(\<Sum>i = 0..<n. (if int i < r then 1 else 0 :: int)) = int (card {i \<in> {0..<n}. int i < r})"
    by (simp add: sum.If_cases Int_def Collect_conj_eq [symmetric])
  also have "{i \<in> {0..<n}. int i < r} = {0..<nat r}"
    using assms by auto
  finally have "(\<Sum>i = 0..<n. (if int i < r then 1 else 0 :: int)) = r"
    using assms by simp
  then show ?thesis by (simp add: sum.distrib)
qed

lemma sum_list_distributeEvenly:
  assumes "0 \<le> a" "0 < n"
  shows "sum_list (distributeEvenly a n) = a"
proof -
  have "sum_list (distributeEvenly a n)
        = (\<Sum>i = 0..<n. a div int n + (if int i < a mod int n then 1 else 0))"
    using assms
    by (auto simp: distributeEvenly_def Let_def sdiv_smod_nonneg interv_sum_list_conv_sum_set_nat
             intro!: sum.cong)
  also have "\<dots> = int n * (a div int n) + a mod int n"
    using assms by (intro sum_bump) (simp_all add: less_imp_le)
  finally show ?thesis by simp
qed

lemma winnerDistribution_default:
  assumes "\<forall>w\<in>set ws. result_winAmount w = None"
  shows "map share_amount (winnerDistribution p ws) = distributeEvenly p (length ws)"
    and "map share_playerId (winnerDistribution p ws) = map playerId ws"
proof -
  have *: "i < length ws \<Longrightarrow> result_winAmount (ws ! i) = None" for i
    using assms by simp
  show "map share_amount (winnerDistribution p ws) = distributeEvenly p (length ws)"
    by (rule nth_equalityI) (simp_all add: winnerDistribution_def Let_def *)
  show "map share_playerId (winnerDistribution p ws) = map playerId ws"
    by (rule nth_equalityI) (simp_all add: winnerDistribution_def Let_def)
qed

text \<open>
  Claim C4. For a non-negative prize pool and a non-empty list of winners none of whom
  carries an explicit amount, the distribution keeps the winners in the order of the
  results, gives the winner at index \<open>i\<close> the amount \<open>prizePool div n\<close> plus one unit when
  \<open>i < prizePool mod n\<close>, sums to the prize pool exactly, and no two amounts differ by
  more than one.
\<close>

theorem default_distribution:
  assumes "0 \<le> prizePool" and "ws \<noteq> []" and "\<forall>w\<in>set ws. result_winAmount w = None"
  shows "map share_playerId (winnerDistribution prizePool ws) = map playerId ws
       \<and> length (winnerDistribution prizePool ws) = length ws
       \<and> (\<forall>i<length ws. share_amount (winnerDistribution prizePool ws ! i)
              = prizePool div int (length ws)
                + (if int i < prizePool mod int (length ws) then 1 else 0))
       \<and> sum_list (map share_amount (winnerDistribution prizePool ws)) = prizePool
       \<and> (\<forall>i<length ws. \<forall>j<length ws.
             \<bar>share_amount (winnerDistribution prizePool ws ! i)
               - share_amount (winnerDistribution prizePool ws ! j)\<bar> \<le> 1)"
proof -
  let ?d = "winnerDistribution prizePool ws"
  have len: "length ?d = length ws"
    by (simp add: winnerDistribution_def Let_def)
  have amt: "map share_amount ?d = distributeEvenly prizePool (length ws)"
    using assms(3) by (rule winnerDistribution_default)
  have nth: "share_amount (?d ! i)
               = prizePool div int (length ws)
                 + (if int i < prizePool mod int (length ws) then 1 else 0)"
    if "i < length ws" for i
  proof -
    have "share_amount (?d ! i) = map share_amount ?d ! i"
      using that len by simp
    then show ?thesis
      using that assms(1) by (simp add: amt distributeEvenly_nth)
  qed
  have "sum_list (map share_amount ?d) = prizePool"
    using assms(1,2) by (simp add: amt sum_list_distributeEvenly)
  moreover have "map share_playerId ?d = map playerId ws"
    using assms(3) by (rule winnerDistribution_default)
  moreover have "\<forall>i<length ws. \<forall>j<length ws. \<bar>share_amount (?d ! i) - share_amount (?d ! j)\<bar> \<le> 1"
    by (simp add: nth)
  ultimately show ?thesis
    using len nth by blast
qed

theorem default_distribution_witness:
  "(0::int) \<le> 1000
   \<and> [result ''A'' True None, result ''B'' True None, result ''C'' True None] \<noteq> []
   \<and> map result_winAmount [result ''A'' True None, result ''B'' True None, result ''C'' True None]
       = [None, None, None]
   \<and> map share_amount (winnerDistribution 1000
         [result ''A'' True None, result ''B'' True None, result ''C'' True None]) = [334, 333, 333]
   \<and> sum_list (map share_amount (winnerDistribution 1000
         [result ''A'' True None, result ''B'' True None, result ''C'' True None])) = 1000"
proof -
  let ?ws = "[result ''A'' True None, result ''B'' True None, result ''C'' True None]"
  have h1: "(0::int) \<le> 1000" by simp
  have h2: "?ws \<noteq> []" by simp
  have h3: "\<forall>w\<in>set ?ws. result_winAmount w = None" by (simp add: result_def)
  have e: "map share_amount (winnerDistribution 1000 ?ws) = [334, 333, 333]" by code_simp
  have h3': "map result_winAmount ?ws = [None, None, None]" by (simp add: result_def)
  from default_distribution [OF h1 h2 h3]
  have "sum_list (map share_amount (winnerDistribution 1000 ?ws)) = 1000" by blast
  with h1 h2 h3' e show ?thesis by blast
qed

section \<open>The platform fee\<close>

text \<open>
  For an integral percentage the fee is the floor of \<open>pot \<times> percent / 100\<close> and the prize
  pool is the rest of the pot.
\<close>

lemma platform_fee_integral_percent:
  assumes "platformFee c = of_int p" and "0 \<le> p" and "0 \<le> pot"
  shows "calculatePlatformFee c pot = Inr (pot * p div 100)"
    and "calculatePrizePool c pot = Inr (pot - pot * p div 100)"
    and "\<lfloor>of_int pot * platformFee c / 100\<rfloor> = pot * p div 100"
proof -
  have nn: "0 \<le> pot * p" using assms by simp
  show fee: "calculatePlatformFee c pot = Inr (pot * p div 100)"
    using nn by (simp add: calculatePlatformFee_def BigInt_def assms(1) sdiv_smod_nonneg)
  show "calculatePrizePool c pot = Inr (pot - pot * p div 100)"
    by (simp add: calculatePrizePool_def fee)
  have "of_int pot * platformFee c / 100 = (of_int (pot * p) :: rat) / of_int 100"
    by (simp add: assms(1))
  then show "\<lfloor>of_int pot * platformFee c / 100\<rfloor> = pot * p div 100"
    by (simp only: floor_divide_of_int_eq)
qed

text \<open>
  Claim C5. The platform fee is the floor of \<open>totalPot \<times> platformFeePercent / 100\<close> for
  every percentage a contract may carry. A contract may carry 2.5 percent (the route
  schema and the use case accept any number from 0 to 100); for it the floor is 5 on a
  pot of 200, but both the fee and the prize-pool computation raise a RangeError.
\<close>

theorem platform_fee_fractional_percent:
  "calculatePlatformFee (quickMatch\<lparr>platformFee := 5 / 2\<rparr>) 200 = Inl RangeError
   \<and> calculatePrizePool (quickMatch\<lparr>platformFee := 5 / 2\<rparr>) 200 = Inl RangeError
   \<and> \<lfloor>of_int 200 * platformFee (quickMatch\<lparr>platformFee := 5 / 2\<rparr>) / 100\<rfloor> = (5::int)"
  by code_simp

section \<open>Properties of Settle\<close>

text \<open>The loop over the users touches the user table only.\<close>

lemma updateBalance_other [simp]:
  "gameSessions (updateBalance i b l d) = gameSessions d"
  "ledgerEntries (updateBalance i b l d) = ledgerEntries d"
  "contracts (updateBalance i b l d) = contracts d"
  by (simp_all add: updateBalance_def)

lemma settleUsers_tables:
  "settleUsers s wd us es sw d = (r, d') \<Longrightarrow>
     gameSessions d' = gameSessions d \<and> ledgerEntries d' = ledgerEntries d
     \<and> contracts d' = contracts d"
proof (induction us arbitrary: es sw d)
  case Nil
  then show ?case by simp
next
  case (Cons u us)
  then show ?case
    by (auto simp: Let_def deductLockedFunds_def addWinnings_def
             split: option.splits if_splits)
qed

lemma settleUsers_entries:
  "settleUsers s wd us es sw d = (Inr (es', sw'), d') \<Longrightarrow>
     \<exists>new. es' = es @ new
       \<and> (\<forall>e\<in>set new. (entry_type e = LOSE \<or> entry_type e = WIN)
                        \<and> entry_sessionId e = Some (session_id s))
       \<and> map entry_userId (filter (\<lambda>e. entry_type e = LOSE) new) = map user_id us"
proof (induction us arbitrary: es sw d)
  case Nil
  then show ?case by simp
next
  case (Cons u us)
  then show ?case
    by (fastforce simp: Let_def deductLockedFunds_def addWinnings_def
             split: option.splits if_splits dest!: Cons.IH)
qed


text \<open>The rows and the returned winners, exactly, and the user table after the loop.\<close>

lemma settleUsers_exact:
  "settleUsers s wd us es sw d = (Inr (es', sw'), d') \<Longrightarrow>
     es' = es @ concat (map (\<lambda>u.
             case getPlayer s (user_id u) of
               None \<Rightarrow> []
             | Some player \<Rightarrow>
                 \<lparr>entry_userId = user_id u, entry_type = LOSE,
                  entry_amount = amountLocked player,
                  balanceAfter = balance u - amountLocked player,
                  description = ''Game entry fee deducted'',
                  entry_sessionId = Some (session_id s)\<rparr>
                 # (case find (\<lambda>w. share_playerId w = user_id u) wd of
                      None \<Rightarrow> []
                    | Some w \<Rightarrow>
                        [\<lparr>entry_userId = user_id u, entry_type = WIN,
                          entry_amount = share_amount w,
                          balanceAfter = balance u - amountLocked player + share_amount w,
                          description = ''Game winnings'',
                          entry_sessionId = Some (session_id s)\<rparr>])) us)
     \<and> sw' = sw @ concat (map (\<lambda>u.
             case find (\<lambda>w. share_playerId w = user_id u) wd of
               None \<Rightarrow> []
             | Some w \<Rightarrow> [\<lparr>winner_id = user_id u, winner_displayName = displayName u,
                           amountWon = share_amount w\<rparr>]) us)"
proof (induction us arbitrary: es sw d)
  case Nil
  then show ?case by simp
next
  case (Cons u us)
  then show ?case
    by (auto simp: Let_def deductLockedFunds_def addWinnings_def
             split: option.splits if_splits dest!: Cons.IH)
qed



lemma winnerDistribution_nth:
  "i < length ws \<Longrightarrow>
     winnerDistribution pool ws ! i
       = \<lparr>share_playerId = playerId (ws ! i),
          share_amount = (case result_winAmount (ws ! i) of
                            Some a \<Rightarrow> a
                          | None \<Rightarrow> distributeEvenly pool (length ws) ! i)\<rparr>"
  by (simp add: winnerDistribution_def Let_def)

lemma length_winnerDistribution [simp]: "length (winnerDistribution pool ws) = length ws"
  by (simp add: winnerDistribution_def Let_def)

lemma find_winnerDistribution_None:
  "find (\<lambda>y. share_playerId y = pid) (winnerDistribution pool ws) = None
     \<longleftrightarrow> pid \<notin> playerId ` set ws"
proof -
  have "map share_playerId (winnerDistribution pool ws) = map playerId ws"
    by (rule nth_equalityI) (simp_all add: winnerDistribution_nth)
  then have img: "share_playerId ` set (winnerDistribution pool ws) = playerId ` set ws"
    by (metis set_map)
  have "(\<exists>x. x \<in> set (winnerDistribution pool ws) \<and> share_playerId x = pid)
          \<longleftrightarrow> pid \<in> share_playerId ` set (winnerDistribution pool ws)"
    by blast
  then show ?thesis
    by (simp add: find_None_iff img)
qed



lemma settleUsers_win_rows:
  "settleUsers s wd us es sw d = (Inr (es', sw'), d') \<Longrightarrow>
     \<exists>new neww. es' = es @ new \<and> sw' = sw @ neww
       \<and> map entry_userId (filter (\<lambda>e. entry_type e = WIN) new)
           = map user_id (filter (\<lambda>u. find (\<lambda>w. share_playerId w = user_id u) wd \<noteq> None) us)
       \<and> map winner_id neww
           = map user_id (filter (\<lambda>u. find (\<lambda>w. share_playerId w = user_id u) wd \<noteq> None) us)
       \<and> (\<forall>u\<in>set us. getPlayer s (user_id u) \<noteq> None)"
proof (induction us arbitrary: es sw d)
  case Nil
  then show ?case by simp
next
  case (Cons u us)
  then show ?case
    by (fastforce simp: Let_def deductLockedFunds_def addWinnings_def
             split: option.splits if_splits dest!: Cons.IH)
qed

text \<open>What a successful Settle went through.\<close>

lemma settle_success:
  assumes "SettleContract_execute V now tok rs d = (Inr r, d')"
  obtains p s c fee pool es sw d1 where
    "V tok = Some p"
    "findSessionById d (sessionId p) = Some s"
    "status s = PENDING \<or> status s = ACTIVE"
    "\<not> isExpired now s"
    "find (\<lambda>pid. pid \<notin> set (map playerId rs)) (map userId (players s)) = None"
    "findContractById d (session_contractId s) = Some c"
    "calculatePlatformFee c (totalPot s) = Inr fee"
    "calculatePrizePool c (totalPot s) = Inr pool"
    "filter result_isWinner rs \<noteq> []"
    "settleUsers s (winnerDistribution pool (filter result_isWinner rs))
       (findByIds d (map userId (players s))) [] [] d = (Inr (es, sw), d1)"
    "r = \<lparr>settled_sessionId = session_id s, winners = sw, platformFeeCollected = fee\<rparr>"
    "ledgerEntries d' = ledgerEntries d1 @ es"
    "users d' = users d1"
    "\<exists>xs. gameSessions d'
            = map (\<lambda>x. if session_id x = session_id s
                       then x\<lparr>players := foldl applyResult (players x) xs,
                              status := SETTLED, settledAt := Some now\<rparr>
                       else x)
                  (gameSessions d)"
proof -
  from assms obtain p where p: "V tok = Some p"
    by (auto simp: SettleContract_execute_def split: option.splits)
  from assms p obtain s where s: "findSessionById d (sessionId p) = Some s"
    by (auto simp: SettleContract_execute_def split: option.splits)
  from assms p s have st: "status s = PENDING \<or> status s = ACTIVE"
    by (cases "status s") (auto simp: SettleContract_execute_def)
  then have st': "status s \<noteq> SETTLED" "status s \<noteq> CANCELLED" "status s \<noteq> EXPIRED"
    by auto
  from assms p s st' have ex: "\<not> isExpired now s"
    by (auto simp: SettleContract_execute_def split: if_splits)
  from assms p s st' ex
  have miss: "find (\<lambda>pid. pid \<notin> set (map playerId rs)) (map userId (players s)) = None"
    by (auto simp: SettleContract_execute_def Let_def split: option.splits)
  from assms p s st' ex miss obtain c where c: "findContractById d (session_contractId s) = Some c"
    by (auto simp: SettleContract_execute_def Let_def split: option.splits)
  from assms p s st' ex miss c obtain fee where fee: "calculatePlatformFee c (totalPot s) = Inr fee"
    by (auto simp: SettleContract_execute_def Let_def split: sum.splits)
  from assms p s st' ex miss c fee obtain pool where pool: "calculatePrizePool c (totalPot s) = Inr pool"
    by (auto simp: SettleContract_execute_def Let_def split: sum.splits)
  from assms p s st' ex miss c fee pool have ws: "filter result_isWinner rs \<noteq> []"
    by (auto simp: SettleContract_execute_def Let_def split: if_splits)
  from assms p s st' ex miss c fee pool ws obtain es sw d1 where
    loop: "settleUsers s (winnerDistribution pool (filter result_isWinner rs))
             (findByIds d (map userId (players s))) [] [] d = (Inr (es, sw), d1)"
    and r: "r = \<lparr>settled_sessionId = session_id s, winners = sw, platformFeeCollected = fee\<rparr>"
    and d': "d' = settleSession now (session_id s)
               (map (\<lambda>r. (playerId r, result_isWinner r,
                   case find (\<lambda>w. share_playerId w = playerId r)
                          (winnerDistribution pool (filter result_isWinner rs)) of
                     Some w \<Rightarrow> share_amount w | None \<Rightarrow> 0)) rs)
               (appendMany es d1)"
    by (auto simp: SettleContract_execute_def Let_def split: sum.splits prod.splits)
  have tabs: "ledgerEntries d' = ledgerEntries d1 @ es" "users d' = users d1"
    by (simp_all add: d' settleSession_def appendMany_def)
  from loop have "gameSessions d1 = gameSessions d"
    by (simp add: settleUsers_tables)
  then have "\<exists>xs. gameSessions d'
            = map (\<lambda>x. if session_id x = session_id s
                       then x\<lparr>players := foldl applyResult (players x) xs,
                              status := SETTLED, settledAt := Some now\<rparr>
                       else x)
                  (gameSessions d)"
    by (auto simp: d' settleSession_def appendMany_def)
  with p s st ex miss c fee pool ws loop r tabs show thesis
    by (rule that)
qed


text \<open>
  Claim C3, as the code has it. A successful Settle appends to the ledger exactly these
  rows, all referencing the session, for the users of the session read from the user
  table, in table order: for each user a LOSE row of the locked amount with the balance
  after the deduction, followed, when the user has a winning result, by a WIN row of the
  share of the first such result with the balance after the credit. So there is one LOSE
  row per session user and one WIN row per paid winner, and no FEE row is appended; the
  platform fee, the truncated quotient of \<open>totalPot \<times> percent\<close> by 100 (the floor, for
  non-negative amounts), is returned as \<open>platformFeeCollected\<close>.
\<close>

theorem settle_ledger_entries:
  assumes "SettleContract_execute V now tok rs d = (Inr r, d')"
    and "V tok = Some p"
    and "findSessionById d (sessionId p) = Some s"
    and "findContractById d (session_contractId s) = Some c"
  shows "\<exists>es pool. ledgerEntries d' = ledgerEntries d @ es
           \<and> (\<forall>e\<in>set es. (entry_type e = LOSE \<or> entry_type e = WIN)
                            \<and> entry_sessionId e = Some (session_id s))
           \<and> map entry_userId (filter (\<lambda>e. entry_type e = LOSE) es)
               = map user_id (findByIds d (map userId (players s)))
           \<and> calculatePrizePool c (totalPot s) = Inr pool
           \<and> map entry_userId (filter (\<lambda>e. entry_type e = WIN) es)
               = map user_id (filter (\<lambda>u. user_id u \<in> playerId ` set (filter result_isWinner rs))
                                (findByIds d (map userId (players s))))
           \<and> (\<forall>u\<in>set (findByIds d (map userId (players s))). getPlayer s (user_id u) \<noteq> None)
           \<and> es = concat (map (\<lambda>u.
                   case getPlayer s (user_id u) of
                     None \<Rightarrow> []
                   | Some player \<Rightarrow>
                       \<lparr>entry_userId = user_id u, entry_type = LOSE,
                        entry_amount = amountLocked player,
                        balanceAfter = balance u - amountLocked player,
                        description = ''Game entry fee deducted'',
                        entry_sessionId = Some (session_id s)\<rparr>
                       # (case find (\<lambda>w. share_playerId w = user_id u)
                                  (winnerDistribution pool (filter result_isWinner rs)) of
                            None \<Rightarrow> []
                          | Some w \<Rightarrow>
                              [\<lparr>entry_userId = user_id u, entry_type = WIN,
                                entry_amount = share_amount w,
                                balanceAfter = balance u - amountLocked player + share_amount w,
                                description = ''Game winnings'',
                                entry_sessionId = Some (session_id s)\<rparr>]))
                 (findByIds d (map userId (players s))))
           \<and> (\<exists>k. platformFee c = of_int k
                  \<and> platformFeeCollected r = (totalPot s * k) sdiv 100
                  \<and> (0 \<le> totalPot s * k \<longrightarrow>
                        platformFeeCollected r
                          = \<lfloor>of_int (totalPot s) * platformFee c / 100\<rfloor>))"
proof -
  let ?ws = "filter result_isWinner rs"
  let ?us = "findByIds d (map userId (players s))"
  from assms(1) obtain p' s' c' fee pool es sw d1 where
    *: "V tok = Some p'" "findSessionById d (sessionId p') = Some s'"
       "findContractById d (session_contractId s') = Some c'"
       "calculatePlatformFee c' (totalPot s') = Inr fee"
       "calculatePrizePool c' (totalPot s') = Inr pool"
       "settleUsers s' (winnerDistribution pool ?ws)
          (findByIds d (map userId (players s'))) [] [] d = (Inr (es, sw), d1)"
       "r = \<lparr>settled_sessionId = session_id s', winners = sw, platformFeeCollected = fee\<rparr>"
       "ledgerEntries d' = ledgerEntries d1 @ es"
    by (rule settle_success)
  from * assms have eq: "p' = p" "s' = s" "c' = c" by simp_all
  note loop = *(6) [unfolded eq]
  from loop have "ledgerEntries d1 = ledgerEntries d"
    by (simp add: settleUsers_tables)
  with *(8) have led: "ledgerEntries d' = ledgerEntries d @ es" by simp
  from settleUsers_entries [OF loop]
  have ent: "\<forall>e\<in>set es. (entry_type e = LOSE \<or> entry_type e = WIN)
                            \<and> entry_sessionId e = Some (session_id s)"
       "map entry_userId (filter (\<lambda>e. entry_type e = LOSE) es) = map user_id ?us"
    by auto
  have flt: "filter (\<lambda>u. find (\<lambda>w. share_playerId w = user_id u)
                            (winnerDistribution pool ?ws) \<noteq> None) ?us
             = filter (\<lambda>u. user_id u \<in> playerId ` set ?ws) ?us"
    by (rule filter_cong) (simp_all only: find_winnerDistribution_None not_not)
  from settleUsers_win_rows [OF loop, unfolded flt]
  have win: "map entry_userId (filter (\<lambda>e. entry_type e = WIN) es)
               = map user_id (filter (\<lambda>u. user_id u \<in> playerId ` set ?ws) ?us)"
    and pl: "\<forall>u\<in>set ?us. getPlayer s (user_id u) \<noteq> None"
    by auto
  from settleUsers_exact [OF loop]
  have exact: "es = concat (map (\<lambda>u.
                   case getPlayer s (user_id u) of
                     None \<Rightarrow> []
                   | Some player \<Rightarrow>
                       \<lparr>entry_userId = user_id u, entry_type = LOSE,
                        entry_amount = amountLocked player,
                        balanceAfter = balance u - amountLocked player,
                        description = ''Game entry fee deducted'',
                        entry_sessionId = Some (session_id s)\<rparr>
                       # (case find (\<lambda>w. share_playerId w = user_id u)
                                  (winnerDistribution pool ?ws) of
                            None \<Rightarrow> []
                          | Some w \<Rightarrow>
                              [\<lparr>entry_userId = user_id u, entry_type = WIN,
                                entry_amount = share_amount w,
                                balanceAfter = balance u - amountLocked player + share_amount w,
                                description = ''Game winnings'',
                                entry_sessionId = Some (session_id s)\<rparr>])) ?us)"
    by simp
  from *(4) obtain k where k: "platformFee c = of_int k" "fee = (totalPot s * k) sdiv 100"
    by (auto simp: eq calculatePlatformFee_def BigInt_def split: if_splits)
  have "fee = \<lfloor>of_int (totalPot s) * platformFee c / 100\<rfloor>" if "0 \<le> totalPot s * k"
  proof -
    have "of_int (totalPot s) * platformFee c / 100 = (of_int (totalPot s * k) :: rat) / of_int 100"
      by (simp add: k(1))
    then have "\<lfloor>of_int (totalPot s) * platformFee c / 100\<rfloor> = totalPot s * k div 100"
      by (simp only: floor_divide_of_int_eq)
    with that show ?thesis
      by (simp add: k(2) sdiv_smod_nonneg)
  qed
  with k have fee: "\<exists>k. platformFee c = of_int k
                  \<and> platformFeeCollected r = (totalPot s * k) sdiv 100
                  \<and> (0 \<le> totalPot s * k \<longrightarrow>
                        platformFeeCollected r
                          = \<lfloor>of_int (totalPot s) * platformFee c / 100\<rfloor>)"
    by (auto simp: *(7))
  from *(5) have pool: "calculatePrizePool c (totalPot s) = Inr pool" by (simp add: eq)
  show ?thesis
    apply (rule exI [of _ es], rule exI [of _ pool])
    apply (intro conjI)
           apply (fact led)
          apply (fact ent(1))
         apply (fact ent(2))
        apply (fact pool)
       apply (fact win)
      apply (fact pl)
     apply (fact exact)
    apply (fact fee)
    done
qed

text \<open>
  Scenario S1 (Alice wins against Bob, pot 200, fee 5 percent): Settle succeeds, the
  ledger gains the rows LOSE, WIN, LOSE, and none of type FEE.
\<close>

theorem settle_without_fee_entry:
  "SettleContract_execute acceptTok 1000 ''tok''
      [result ''A'' True None, result ''B'' False None] db1
   = (Inr \<lparr>settled_sessionId = ''s1'',
           winners = [\<lparr>winner_id = ''A'', winner_displayName = ''Alice'', amountWon = 190\<rparr>],
           platformFeeCollected = 10\<rparr>,
      db1\<lparr>users := [alice\<lparr>balance := 1090\<rparr>, bob\<lparr>balance := 900\<rparr>, carol, dave],
          gameSessions :=
            [sigma\<lparr>status := SETTLED, settledAt := Some 1000,
                   players := [\<lparr>userId = ''A'', player_displayName = ''Alice'',
                                 amountLocked = 100, isWinner = True, winAmount = 190\<rparr>,
                               \<lparr>userId = ''B'', player_displayName = ''Bob'',
                                 amountLocked = 100, isWinner = False, winAmount = 0\<rparr>]\<rparr>],
          ledgerEntries :=
            [\<lparr>entry_userId = ''A'', entry_type = LOSE, entry_amount = 100, balanceAfter = 900,
               description = ''Game entry fee deducted'', entry_sessionId = Some ''s1''\<rparr>,
             \<lparr>entry_userId = ''A'', entry_type = WIN, entry_amount = 190, balanceAfter = 1090,
               description = ''Game winnings'', entry_sessionId = Some ''s1''\<rparr>,
             \<lparr>entry_userId = ''B'', entry_type = LOSE, entry_amount = 100, balanceAfter = 900,
               description = ''Game entry fee deducted'', entry_sessionId = Some ''s1''\<rparr>]\<rparr>)
   \<and> FEE \<notin> entry_type ` set (ledgerEntries (snd (SettleContract_execute acceptTok 1000 ''tok''
         [result ''A'' True None, result ''B'' False None] db1)))"
  by code_simp


theorem settle_ledger_entries_witness:
  "SettleContract_execute acceptTok 1000 ''tok''
      [result ''A'' True None, result ''B'' False None] db1
     = (Inr \<lparr>settled_sessionId = ''s1'',
             winners = [\<lparr>winner_id = ''A'', winner_displayName = ''Alice'', amountWon = 190\<rparr>],
             platformFeeCollected = 10\<rparr>,
        snd (SettleContract_execute acceptTok 1000 ''tok''
               [result ''A'' True None, result ''B'' False None] db1))
   \<and> acceptTok ''tok'' = Some sigmaPayload
   \<and> findSessionById db1 (sessionId sigmaPayload) = Some sigma
   \<and> findContractById db1 (session_contractId sigma) = Some quickMatch
   \<and> ledgerEntries (snd (SettleContract_execute acceptTok 1000 ''tok''
                             [result ''A'' True None, result ''B'' False None] db1))
       = ledgerEntries db1
         @ [\<lparr>entry_userId = ''A'', entry_type = LOSE, entry_amount = 100, balanceAfter = 900,
              description = ''Game entry fee deducted'', entry_sessionId = Some ''s1''\<rparr>,
            \<lparr>entry_userId = ''A'', entry_type = WIN, entry_amount = 190, balanceAfter = 1090,
              description = ''Game winnings'', entry_sessionId = Some ''s1''\<rparr>,
            \<lparr>entry_userId = ''B'', entry_type = LOSE, entry_amount = 100, balanceAfter = 900,
              description = ''Game entry fee deducted'', entry_sessionId = Some ''s1''\<rparr>]"
proof -
  let ?rs = "[result ''A'' True None, result ''B'' False None]"
  let ?run = "SettleContract_execute acceptTok 1000 ''tok'' ?rs db1"
  let ?r = "\<lparr>settled_sessionId = ''s1'',
             winners = [\<lparr>winner_id = ''A'', winner_displayName = ''Alice'', amountWon = 190\<rparr>],
             platformFeeCollected = 10\<rparr>"
  let ?rows = "\<lambda>pool. concat (map (\<lambda>u.
                   case getPlayer sigma (user_id u) of
                     None \<Rightarrow> []
                   | Some player \<Rightarrow>
                       \<lparr>entry_userId = user_id u, entry_type = LOSE,
                        entry_amount = amountLocked player,
                        balanceAfter = balance u - amountLocked player,
                        description = ''Game entry fee deducted'',
                        entry_sessionId = Some (session_id sigma)\<rparr>
                       # (case find (\<lambda>w. share_playerId w = user_id u)
                                  (winnerDistribution pool (filter result_isWinner ?rs)) of
                            None \<Rightarrow> []
                          | Some w \<Rightarrow>
                              [\<lparr>entry_userId = user_id u, entry_type = WIN,
                                entry_amount = share_amount w,
                                balanceAfter = balance u - amountLocked player + share_amount w,
                                description = ''Game winnings'',
                                entry_sessionId = Some (session_id sigma)\<rparr>]))
                 (findByIds db1 (map userId (players sigma))))"
  have h1: "?run = (Inr ?r, snd ?run)" by code_simp
  have h2: "acceptTok ''tok'' = Some sigmaPayload" by code_simp
  have h3: "findSessionById db1 (sessionId sigmaPayload) = Some sigma" by code_simp
  have h4: "findContractById db1 (session_contractId sigma) = Some quickMatch" by code_simp
  have pp: "calculatePrizePool quickMatch (totalPot sigma) = Inr 190" by code_simp
  have ev: "?rows 190
              = [\<lparr>entry_userId = ''A'', entry_type = LOSE, entry_amount = 100, balanceAfter = 900,
                   description = ''Game entry fee deducted'', entry_sessionId = Some ''s1''\<rparr>,
                 \<lparr>entry_userId = ''A'', entry_type = WIN, entry_amount = 190, balanceAfter = 1090,
                   description = ''Game winnings'', entry_sessionId = Some ''s1''\<rparr>,
                 \<lparr>entry_userId = ''B'', entry_type = LOSE, entry_amount = 100, balanceAfter = 900,
                   description = ''Game entry fee deducted'', entry_sessionId = Some ''s1''\<rparr>]"
    by code_simp
  from settle_ledger_entries [OF h1 h2 h3 h4]
  obtain es pool where led: "ledgerEntries (snd ?run) = ledgerEntries db1 @ es"
    and pool: "calculatePrizePool quickMatch (totalPot sigma) = Inr pool"
    and es: "es = ?rows pool"
    by blast
  from pool pp have p190: "pool = 190" by simp
  note es190 = es [unfolded p190]
  note rows = trans [OF es190 ev]
  from led have "ledgerEntries (snd ?run) = ledgerEntries db1
         @ [\<lparr>entry_userId = ''A'', entry_type = LOSE, entry_amount = 100, balanceAfter = 900,
              description = ''Game entry fee deducted'', entry_sessionId = Some ''s1''\<rparr>,
            \<lparr>entry_userId = ''A'', entry_type = WIN, entry_amount = 190, balanceAfter = 1090,
              description = ''Game winnings'', entry_sessionId = Some ''s1''\<rparr>,
            \<lparr>entry_userId = ''B'', entry_type = LOSE, entry_amount = 100, balanceAfter = 900,
              description = ''Game entry fee deducted'', entry_sessionId = Some ''s1''\<rparr>]"
    unfolding rows .
  with h1 h2 h3 h4 show ?thesis by blast
qed









section \<open>Settle on a session that is terminal or past its expiry\<close>

text \<open>
  Claim C6, as the code has it. For a verified token whose session exists: on status
  SETTLED Settle fails with SessionAlreadySettledError; on status CANCELLED or EXPIRED
  it fails with a ValidationError ("Session is cancelled" or "Session is expired", code
  VALIDATION_ERROR); on a PENDING or ACTIVE session with the clock past \<open>expiresAt\<close>
  it fails with SessionExpiredError. In each case the database is returned unchanged: no
  ledger row is appended and no balance changes.
\<close>

theorem settle_rejects_terminal_or_expired:
  assumes "V tok = Some p" and "findSessionById d (sessionId p) = Some s"
  shows "(status s = SETTLED \<longrightarrow>
            SettleContract_execute V now tok rs d
              = (Inl (SessionAlreadySettledError (session_id s)), d))
       \<and> (status s = CANCELLED \<or> status s = EXPIRED \<longrightarrow>
            SettleContract_execute V now tok rs d
              = (Inl (ValidationError (''Session is '' @ statusLower (status s))), d))
       \<and> ((status s = PENDING \<or> status s = ACTIVE) \<and> now > expiresAt s \<longrightarrow>
            SettleContract_execute V now tok rs d
              = (Inl (SessionExpiredError (session_id s)), d))"
  using assms by (auto simp: SettleContract_execute_def isExpired_def)

theorem settle_rejects_terminal_or_expired_witness:
  "acceptTok ''tok'' = Some sigmaPayload
   \<and> findSessionById (db1\<lparr>gameSessions := [sigma\<lparr>status := SETTLED\<rparr>]\<rparr>) (sessionId sigmaPayload)
       = Some (sigma\<lparr>status := SETTLED\<rparr>)
   \<and> SettleContract_execute acceptTok 1000 ''tok'' [result ''A'' True None, result ''B'' False None]
         (db1\<lparr>gameSessions := [sigma\<lparr>status := SETTLED\<rparr>]\<rparr>)
       = (Inl (SessionAlreadySettledError ''s1''), db1\<lparr>gameSessions := [sigma\<lparr>status := SETTLED\<rparr>]\<rparr>)
   \<and> findSessionById (db1\<lparr>gameSessions := [sigma\<lparr>status := EXPIRED\<rparr>]\<rparr>) (sessionId sigmaPayload)
       = Some (sigma\<lparr>status := EXPIRED\<rparr>)
   \<and> SettleContract_execute acceptTok 1000 ''tok'' [result ''A'' True None, result ''B'' False None]
         (db1\<lparr>gameSessions := [sigma\<lparr>status := EXPIRED\<rparr>]\<rparr>)
       = (Inl (ValidationError ''Session is expired''), db1\<lparr>gameSessions := [sigma\<lparr>status := EXPIRED\<rparr>]\<rparr>)
   \<and> findSessionById db1 (sessionId sigmaPayload) = Some sigma
   \<and> status sigma = PENDING \<and> (3600001::int) > expiresAt sigma
   \<and> SettleContract_execute acceptTok 3600001 ''tok'' [result ''A'' True None, result ''B'' False None] db1
       = (Inl (SessionExpiredError ''s1''), db1)"
proof -
  let ?rs = "[result ''A'' True None, result ''B'' False None]"
  let ?dS = "db1\<lparr>gameSessions := [sigma\<lparr>status := SETTLED\<rparr>]\<rparr>"
  let ?dE = "db1\<lparr>gameSessions := [sigma\<lparr>status := EXPIRED\<rparr>]\<rparr>"
  have h1: "acceptTok ''tok'' = Some sigmaPayload" by code_simp
  have hS: "findSessionById ?dS (sessionId sigmaPayload) = Some (sigma\<lparr>status := SETTLED\<rparr>)"
    by code_simp
  have hE: "findSessionById ?dE (sessionId sigmaPayload) = Some (sigma\<lparr>status := EXPIRED\<rparr>)"
    by code_simp
  have hP: "findSessionById db1 (sessionId sigmaPayload) = Some sigma" by code_simp
  have st: "status sigma = PENDING" "(3600001::int) > expiresAt sigma" "session_id sigma = ''s1''"
    by code_simp+
  from settle_rejects_terminal_or_expired [where V = acceptTok and tok = "''tok''", OF h1 hS]
  have a: "SettleContract_execute acceptTok 1000 ''tok'' ?rs ?dS
             = (Inl (SessionAlreadySettledError ''s1''), ?dS)"
    by (simp add: st)
  from settle_rejects_terminal_or_expired [where V = acceptTok and tok = "''tok''", OF h1 hE]
  have b: "SettleContract_execute acceptTok 1000 ''tok'' ?rs ?dE
             = (Inl (ValidationError ''Session is expired''), ?dE)"
    by simp
  from settle_rejects_terminal_or_expired [where V = acceptTok and tok = "''tok''", OF h1 hP]
  have c: "SettleContract_execute acceptTok 3600001 ''tok'' ?rs db1
             = (Inl (SessionExpiredError ''s1''), db1)"
    using st by simp
  from h1 hS hE hP st a b c show ?thesis by blast
qed

text \<open>
  On a cancelled session the error is the ValidationError with code VALIDATION_ERROR and
  status 400, not an error with code INVALID_STATE.
\<close>

theorem settle_cancelled_is_validation_error:
  "SettleContract_execute acceptTok 1000 ''tok'' [result ''A'' True None, result ''B'' False None]
      (db1\<lparr>gameSessions := [sigma\<lparr>status := CANCELLED\<rparr>]\<rparr>)
     = (Inl (ValidationError ''Session is cancelled''),
        db1\<lparr>gameSessions := [sigma\<lparr>status := CANCELLED\<rparr>]\<rparr>)
   \<and> code (ValidationError ''Session is cancelled'') = Some ''VALIDATION_ERROR''
   \<and> statusCode (ValidationError ''Session is cancelled'') = Some 400
   \<and> code (ValidationError ''Session is cancelled'') \<noteq> Some ''INVALID_STATE''"
  by code_simp

text \<open>After a Settle that commits, every further Settle on that session is turned away.\<close>

lemma find_map_update:
  assumes "find (\<lambda>s. session_id s = sid) xs = Some s"
    and "\<And>x. session_id (f x) = session_id x"
  shows "find (\<lambda>s. session_id s = sid) (map (\<lambda>x. if session_id x = sid then f x else x) xs)
           = Some (f s)"
  using assms by (induction xs) (auto split: if_splits)

lemma second_settle_rejected:
  assumes "SettleContract_execute V now tok rs d = (Inr r, d')"
    and "V tok' = V tok"
  shows "SettleContract_execute V now' tok' rs' d'
           = (Inl (SessionAlreadySettledError (settled_sessionId r)), d')"
proof -
  from assms(1) obtain p s xs where
    *: "V tok = Some p" "findSessionById d (sessionId p) = Some s"
       "settled_sessionId r = session_id s"
       "gameSessions d'
            = map (\<lambda>x. if session_id x = session_id s
                       then x\<lparr>players := foldl applyResult (players x) xs,
                              status := SETTLED, settledAt := Some now\<rparr>
                       else x)
                  (gameSessions d)"
    by (rule settle_success) auto
  from *(2) have sid: "session_id s = sessionId p"
    by (auto simp: findSessionById_def find_Some_iff)
  let ?f = "\<lambda>x. x\<lparr>players := foldl applyResult (players x) xs, status := SETTLED,
                    settledAt := Some now\<rparr>"
  from *(2) have "find (\<lambda>s. session_id s = sessionId p)
                    (map (\<lambda>x. if session_id x = sessionId p then ?f x else x) (gameSessions d))
                  = Some (?f s)"
    unfolding findSessionById_def by (rule find_map_update) simp
  then have "findSessionById d' (sessionId p) = Some (?f s)"
    by (simp add: findSessionById_def *(4) sid)
  with assms(2) *(1,3) show ?thesis
    by (simp add: SettleContract_execute_def)
qed

section \<open>Properties of Execute\<close>

text \<open>
  The firebase uid is a unique column. Then the rows found for a list of uids are as many
  as the uids exactly when the uids are distinct and each of them resolves.
\<close>

lemma findByFirebaseUids_length_le:
  assumes "distinct (map firebaseUid (users d))"
  shows "length (findByFirebaseUids d uids) \<le> length uids"
    and "length (findByFirebaseUids d uids) = length uids
           \<longleftrightarrow> distinct uids \<and> set uids \<subseteq> firebaseUid ` set (users d)"
proof -
  let ?F = "filter (\<lambda>u. firebaseUid u \<in> set uids) (users d)"
  have dist: "distinct (map firebaseUid ?F)"
    using assms by (rule distinct_map_filter)
  have img: "set (map firebaseUid ?F) = set uids \<inter> firebaseUid ` set (users d)"
    by auto
  have len: "length ?F = card (set uids \<inter> firebaseUid ` set (users d))"
    using distinct_card [OF dist] img by simp
  have le1: "card (set uids \<inter> firebaseUid ` set (users d)) \<le> card (set uids)"
    by (rule card_mono) auto
  have le2: "card (set uids) \<le> length uids"
    by (rule card_length)
  show "length (findByFirebaseUids d uids) \<le> length uids"
    using len le1 le2 by (simp add: findByFirebaseUids_def)
  show "length (findByFirebaseUids d uids) = length uids
           \<longleftrightarrow> distinct uids \<and> set uids \<subseteq> firebaseUid ` set (users d)"
  proof
    assume "length (findByFirebaseUids d uids) = length uids"
    with len le1 le2 have c1: "card (set uids \<inter> firebaseUid ` set (users d)) = card (set uids)"
      and c2: "card (set uids) = length uids"
      by (simp_all add: findByFirebaseUids_def)
    from c1 have "set uids \<inter> firebaseUid ` set (users d) = set uids"
      by (intro card_subset_eq) auto
    with c2 show "distinct uids \<and> set uids \<subseteq> firebaseUid ` set (users d)"
      by (auto simp: card_distinct)
  next
    assume a: "distinct uids \<and> set uids \<subseteq> firebaseUid ` set (users d)"
    then have "set uids \<inter> firebaseUid ` set (users d) = set uids" by auto
    with a len show "length (findByFirebaseUids d uids) = length uids"
      by (simp add: findByFirebaseUids_def distinct_card)
  qed
qed

lemma findByFirebaseUid_None_iff:
  "findByFirebaseUid d uid = None \<longleftrightarrow> uid \<notin> firebaseUid ` set (users d)"
  by (auto simp: findByFirebaseUid_def find_None_iff)

text \<open>
  Claim C7. With the firebase uid a unique column of the user table, an Execute call
  whose preconditions fail returns the error of the first failing check and the database
  as it was (no session, no balance change, no ledger row): ContractNotFoundError when
  the contract is missing; GameNotActiveError when it is inactive; a ValidationError
  when the player count is outside \<open>[minPlayers, maxPlayers]\<close>, an id occurs twice or an
  id does not resolve; and InsufficientFundsError with the entry fee and the available
  balance of a user who cannot afford it, when all else holds.
\<close>

theorem execute_precondition_failure:
  assumes "distinct (map firebaseUid (users d))"
  shows "(findContractById d cid = None \<longrightarrow>
            ExecuteContract_execute gen now newId cid uids d
              = (Inl (ContractNotFoundError cid), d))
       \<and> (\<forall>c. findContractById d cid = Some c \<longrightarrow>
            (\<not> isActive c \<longrightarrow>
               ExecuteContract_execute gen now newId cid uids d = (Inl GameNotActiveError, d))
          \<and> (isActive c
               \<and> (int (length uids) < minPlayers c \<or> maxPlayers c < int (length uids)
                    \<or> \<not> distinct uids \<or> (\<exists>uid\<in>set uids. findByFirebaseUid d uid = None)) \<longrightarrow>
               (\<exists>msg. ExecuteContract_execute gen now newId cid uids d
                         = (Inl (ValidationError msg), d)))
          \<and> (isActive c
               \<and> minPlayers c \<le> int (length uids) \<and> int (length uids) \<le> maxPlayers c
               \<and> distinct uids \<and> (\<forall>uid\<in>set uids. findByFirebaseUid d uid \<noteq> None)
               \<and> (\<exists>u\<in>set (users d). firebaseUid u \<in> set uids
                                        \<and> availableBalance u < entryFee c) \<longrightarrow>
               (\<exists>u\<in>set (users d). firebaseUid u \<in> set uids
                    \<and> availableBalance u < entryFee c
                    \<and> ExecuteContract_execute gen now newId cid uids d
                         = (Inl (InsufficientFundsError (entryFee c) (availableBalance u)), d))))"
proof (intro conjI allI impI)
  assume "findContractById d cid = None"
  then show "ExecuteContract_execute gen now newId cid uids d
               = (Inl (ContractNotFoundError cid), d)"
    by (simp add: ExecuteContract_execute_def)
next
  fix c assume "findContractById d cid = Some c" "\<not> isActive c"
  then show "ExecuteContract_execute gen now newId cid uids d = (Inl GameNotActiveError, d)"
    by (simp add: ExecuteContract_execute_def)
next
  fix c
  assume c: "findContractById d cid = Some c"
    and bad: "isActive c
               \<and> (int (length uids) < minPlayers c \<or> maxPlayers c < int (length uids)
                    \<or> \<not> distinct uids \<or> (\<exists>uid\<in>set uids. findByFirebaseUid d uid = None))"
  show "\<exists>msg. ExecuteContract_execute gen now newId cid uids d = (Inl (ValidationError msg), d)"
  proof (cases "isValidPlayerCount c (length uids)")
    case False
    with c bad show ?thesis
      by (simp add: ExecuteContract_execute_def Let_def)
  next
    case True
    with bad have "\<not> distinct uids \<or> \<not> set uids \<subseteq> firebaseUid ` set (users d)"
      by (auto simp: isValidPlayerCount_def findByFirebaseUid_None_iff)
    then have "length (findByFirebaseUids d uids) \<noteq> length uids"
      using findByFirebaseUids_length_le(2) [OF assms, of uids] by blast
    with c bad True show ?thesis
      by (simp add: ExecuteContract_execute_def Let_def)
  qed
next
  fix c
  assume c: "findContractById d cid = Some c"
    and pre: "isActive c
               \<and> minPlayers c \<le> int (length uids) \<and> int (length uids) \<le> maxPlayers c
               \<and> distinct uids \<and> (\<forall>uid\<in>set uids. findByFirebaseUid d uid \<noteq> None)
               \<and> (\<exists>u\<in>set (users d). firebaseUid u \<in> set uids
                                        \<and> availableBalance u < entryFee c)"
  from pre have cnt: "isValidPlayerCount c (length uids)"
    by (simp add: isValidPlayerCount_def)
  from pre have "distinct uids \<and> set uids \<subseteq> firebaseUid ` set (users d)"
    by (auto simp: findByFirebaseUid_None_iff)
  then have len: "length (findByFirebaseUids d uids) = length uids"
    using findByFirebaseUids_length_le(2) [OF assms, of uids] by blast
  from pre have "\<exists>u\<in>set (findByFirebaseUids d uids). \<not> canAfford u (entryFee c)"
    by (auto simp: findByFirebaseUids_def canAfford_def)
  then have "find (\<lambda>u. \<not> canAfford u (entryFee c)) (findByFirebaseUids d uids) \<noteq> None"
    by (auto simp: find_None_iff)
  then obtain u where u: "find (\<lambda>u. \<not> canAfford u (entryFee c)) (findByFirebaseUids d uids) = Some u"
    by blast
  then have "u \<in> set (findByFirebaseUids d uids)" "\<not> canAfford u (entryFee c)"
    by (auto simp: find_Some_iff)
  then have mem: "u \<in> set (users d)" "firebaseUid u \<in> set uids" "availableBalance u < entryFee c"
    by (auto simp: findByFirebaseUids_def canAfford_def)
  from c pre cnt len u
  have "ExecuteContract_execute gen now newId cid uids d
          = (Inl (InsufficientFundsError (entryFee c) (availableBalance u)), d)"
    by (simp add: ExecuteContract_execute_def Let_def)
  with mem show "\<exists>u\<in>set (users d). firebaseUid u \<in> set uids
                    \<and> availableBalance u < entryFee c
                    \<and> ExecuteContract_execute gen now newId cid uids d
                         = (Inl (InsufficientFundsError (entryFee c) (availableBalance u)), d)"
    by blast
qed


theorem execute_precondition_failure_witness:
  "distinct (map firebaseUid (users db0))
   \<and> findContractById db0 ''c1'' = Some quickMatch
   \<and> isActive quickMatch
   \<and> minPlayers quickMatch \<le> int (length [''fc'', ''fa''])
   \<and> int (length [''fc'', ''fa'']) \<le> maxPlayers quickMatch
   \<and> distinct [''fc'', ''fa'']
   \<and> findByFirebaseUid db0 ''fc'' = Some carol
   \<and> findByFirebaseUid db0 ''fa'' = Some alice
   \<and> availableBalance carol = 50 \<and> availableBalance alice = 1000 \<and> entryFee quickMatch = 100
   \<and> ExecuteContract_execute (\<lambda>p. ''tok'') 0 ''s1'' ''c1'' [''fc'', ''fa''] db0
       = (Inl (InsufficientFundsError 100 50), db0)
   \<and> findContractById db0 ''c9'' = None
   \<and> ExecuteContract_execute (\<lambda>p. ''tok'') 0 ''s1'' ''c9'' [''fc'', ''fa''] db0
       = (Inl (ContractNotFoundError ''c9''), db0)"
proof -
  let ?run = "\<lambda>cid. ExecuteContract_execute (\<lambda>p. ''tok'') 0 ''s1'' cid [''fc'', ''fa''] db0"
  have h0: "distinct (map firebaseUid (users db0))" by code_simp
  have h1: "findContractById db0 ''c1'' = Some quickMatch" by code_simp
  have h2: "isActive quickMatch" "minPlayers quickMatch \<le> int (length [''fc'', ''fa''])"
    "int (length [''fc'', ''fa'']) \<le> maxPlayers quickMatch" "distinct [''fc'', ''fa'']"
    by code_simp+
  have h3: "findByFirebaseUid db0 ''fc'' = Some carol" "findByFirebaseUid db0 ''fa'' = Some alice"
    by code_simp+
  have h4: "availableBalance carol = 50" "availableBalance alice = 1000" "entryFee quickMatch = 100"
    by code_simp+
  have h5: "findContractById db0 ''c9'' = None" by code_simp
  have us: "users db0 = [alice, bob, carol, dave]" by (simp add: db0_def)
  note inst = execute_precondition_failure [OF h0, of _ "\<lambda>p. ''tok''" 0 "''s1''" "[''fc'', ''fa'']"]
  from inst [of "''c9''"] h5 have a: "?run ''c9'' = (Inl (ContractNotFoundError ''c9''), db0)"
    by blast
  have pre: "isActive quickMatch
       \<and> minPlayers quickMatch \<le> int (length [''fc'', ''fa''])
       \<and> int (length [''fc'', ''fa'']) \<le> maxPlayers quickMatch
       \<and> distinct [''fc'', ''fa'']
       \<and> (\<forall>uid\<in>set [''fc'', ''fa'']. findByFirebaseUid db0 uid \<noteq> None)
       \<and> (\<exists>u\<in>set (users db0). firebaseUid u \<in> set [''fc'', ''fa'']
               \<and> availableBalance u < entryFee quickMatch)"
    using h2 h3 h4 by (auto simp: us carol_def)
  from inst [of "''c1''"] h1 pre
  have "\<exists>u\<in>set (users db0). firebaseUid u \<in> set [''fc'', ''fa'']
           \<and> availableBalance u < entryFee quickMatch
           \<and> ?run ''c1'' = (Inl (InsufficientFundsError (entryFee quickMatch)
                                   (availableBalance u)), db0)"
    by blast
  then have b: "?run ''c1'' = (Inl (InsufficientFundsError 100 50), db0)"
    using h4 by (auto simp: us alice_def bob_def carol_def dave_def)
  from h0 h1 h2 h3 h4 h5 a b show ?thesis by blast
qed


text \<open>When no precondition fails, Execute returns normally.\<close>

lemma lockUsers_returns:
  assumes "\<forall>u\<in>set us. canAfford u (entryFee c)"
  shows "\<exists>es' d'. lockUsers c s us es d = (Inr es', d')"
  using assms by (induction us arbitrary: es d) (simp_all add: lockFunds_def)

lemma execute_returns:
  assumes "distinct (map firebaseUid (users d))"
    and "findContractById d cid = Some c" and "isActive c"
    and "minPlayers c \<le> int (length uids)" and "int (length uids) \<le> maxPlayers c"
    and "distinct uids" and "\<forall>uid\<in>set uids. findByFirebaseUid d uid \<noteq> None"
    and "\<forall>u\<in>set (users d). firebaseUid u \<in> set uids \<longrightarrow> entryFee c \<le> availableBalance u"
  shows "\<exists>r d'. ExecuteContract_execute gen now newId cid uids d = (Inr r, d')"
proof -
  let ?us = "findByFirebaseUids d uids"
  from assms(4,5) have cnt: "isValidPlayerCount c (length uids)"
    by (simp add: isValidPlayerCount_def)
  from assms(6,7) have "distinct uids \<and> set uids \<subseteq> firebaseUid ` set (users d)"
    by (auto simp: findByFirebaseUid_None_iff)
  then have len: "length ?us = length uids"
    using findByFirebaseUids_length_le(2) [OF assms(1), of uids] by blast
  from assms(8) have all: "\<forall>u\<in>set ?us. canAfford u (entryFee c)"
    by (auto simp: findByFirebaseUids_def canAfford_def)
  then have none: "find (\<lambda>u. \<not> canAfford u (entryFee c)) ?us = None"
    by (simp add: find_None_iff)
  obtain s d1 where cs: "createSession newId now (contract_id c)
        (calculateTotalPot c (length uids)) (addSeconds now (ttlSeconds c))
        (map (\<lambda>u. \<lparr>userId = user_id u, player_displayName = displayName u,
                     amountLocked = entryFee c, isWinner = False, winAmount = 0\<rparr>) ?us) d
      = (s, d1)"
    by (cases "createSession newId now (contract_id c)
        (calculateTotalPot c (length uids)) (addSeconds now (ttlSeconds c))
        (map (\<lambda>u. \<lparr>userId = user_id u, player_displayName = displayName u,
                     amountLocked = entryFee c, isWinner = False, winAmount = 0\<rparr>) ?us) d")
  from lockUsers_returns [OF all] obtain es d2 where "lockUsers c s ?us [] d1 = (Inr es, d2)"
    by blast
  with assms(2,3) cnt len none cs show ?thesis
    by (simp add: ExecuteContract_execute_def Let_def)
qed

lemma execute_scenario:
  "ExecuteContract_execute (\<lambda>p. ''tok'') 0 ''s1'' ''c1'' [''fa'', ''fb''] db0
     = (Inr \<lparr>executed_sessionId = ''s1'', sessionToken = ''tok'',
             executed_players =
               [\<lparr>executed_id = ''A'', executed_displayName = ''Alice'', executed_amountLocked = 100\<rparr>,
                \<lparr>executed_id = ''B'', executed_displayName = ''Bob'', executed_amountLocked = 100\<rparr>],
             executed_totalPot = 200, executed_expiresAt = 3600000\<rparr>,
        db1\<lparr>ledgerEntries :=
              [\<lparr>entry_userId = ''A'', entry_type = LOCK, entry_amount = 100, balanceAfter = 1000,
                 description = ''Locked for DiceRoyale: Quick Match'',
                 entry_sessionId = Some ''s1''\<rparr>,
               \<lparr>entry_userId = ''B'', entry_type = LOCK, entry_amount = 100, balanceAfter = 1000,
                 description = ''Locked for DiceRoyale: Quick Match'',
                 entry_sessionId = Some ''s1''\<rparr>]\<rparr>)"
  by code_simp

section \<open>Properties of the session-token codec\<close>

lemma split_no_separator: "c \<notin> set a \<Longrightarrow> split c a = [a]"
  by (induction a) auto

lemma split_at_separator: "c \<notin> set a \<Longrightarrow> split c (a @ c # rest) = a # split c rest"
  by (induction a) auto

lemma split_three:
  assumes "CHR ''.'' \<notin> set h" "CHR ''.'' \<notin> set b"
  shows "split CHR ''.'' (h @ ''.'' @ b @ ''.'' @ rest) = h # b # split CHR ''.'' rest"
  using assms by (simp add: split_at_separator)

lemma split_nonempty: "split c s \<noteq> []"
  by (induction s) (auto split: list.splits)

lemma verify_three_segments:
  assumes "CHR ''.'' \<notin> set h" "CHR ''.'' \<notin> set b"
  shows "verifySessionToken P secret (h @ ''.'' @ b @ ''.'' @ rest)
           = (if hd (split CHR ''.'' rest) \<noteq> hmac_sha256 P secret (h @ ''.'' @ b) then None
              else JSON_parse P (from_base64url P b))"
proof -
  obtain s ss where "split CHR ''.'' rest = s # ss"
    using split_nonempty [of "CHR ''.''" rest] by (cases "split CHR ''.'' rest") auto
  then show ?thesis
    using split_three [OF assms, of rest]
    by (simp add: verifySessionToken_def Let_def)
qed

text \<open>
  Claim C8, as the code has it. On a platform whose base64url encodings and digests
  contain no dot and whose JSON and base64url decoding give back the minted body:
  verifying the token minted from a payload at time \<open>now\<close> returns the payload with the
  property \<open>iat = now\<close> set (the body that was signed, not the payload that was passed
  in); and a minted token in which the tag, the header or the body has been replaced by
  another dot-free string is rejected, for the tag always, for the header and the body
  unless the replaced \<open>header.body\<close> has the same MAC as the original.
\<close>

theorem token_roundtrip_adds_iat:
  assumes enc: "\<forall>x. CHR ''.'' \<notin> set (to_base64url P x)"
    and mac: "\<forall>k m. CHR ''.'' \<notin> set (hmac_sha256 P k m)"
    and rt: "JSON_parse P (from_base64url P (tokenBody P now payload))
               = Some (JObject (setProperty ''iat'' (JNumber now) payload))"
  shows "verifySessionToken P secret (generateSessionToken P secret now payload)
           = Some (JObject (setProperty ''iat'' (JNumber now) payload))
       \<and> (\<forall>tag. CHR ''.'' \<notin> set tag
               \<and> tag \<noteq> hmac_sha256 P secret (tokenHeader P @ ''.'' @ tokenBody P now payload) \<longrightarrow>
             verifySessionToken P secret
               (tokenHeader P @ ''.'' @ tokenBody P now payload @ ''.'' @ tag) = None)
       \<and> (\<forall>h. CHR ''.'' \<notin> set h
               \<and> hmac_sha256 P secret (h @ ''.'' @ tokenBody P now payload)
                   \<noteq> hmac_sha256 P secret (tokenHeader P @ ''.'' @ tokenBody P now payload) \<longrightarrow>
             verifySessionToken P secret
               (h @ ''.'' @ tokenBody P now payload @ ''.''
                  @ hmac_sha256 P secret (tokenHeader P @ ''.'' @ tokenBody P now payload)) = None)
       \<and> (\<forall>b. CHR ''.'' \<notin> set b
               \<and> hmac_sha256 P secret (tokenHeader P @ ''.'' @ b)
                   \<noteq> hmac_sha256 P secret (tokenHeader P @ ''.'' @ tokenBody P now payload) \<longrightarrow>
             verifySessionToken P secret
               (tokenHeader P @ ''.'' @ b @ ''.''
                  @ hmac_sha256 P secret (tokenHeader P @ ''.'' @ tokenBody P now payload)) = None)"
proof -
  let ?h = "tokenHeader P" and ?b = "tokenBody P now payload"
  let ?t = "hmac_sha256 P secret (?h @ ''.'' @ ?b)"
  have hd: "CHR ''.'' \<notin> set ?h" and bd: "CHR ''.'' \<notin> set ?b"
    using enc by (simp_all add: tokenHeader_def tokenBody_def)
  have td: "CHR ''.'' \<notin> set ?t"
    using mac by simp
  have seg: "hd (split CHR ''.'' s) = s" if "CHR ''.'' \<notin> set s" for s
    using that by (simp add: split_no_separator)
  have "verifySessionToken P secret (generateSessionToken P secret now payload)
          = Some (JObject (setProperty ''iat'' (JNumber now) payload))"
    using verify_three_segments [OF hd bd, of P secret ?t] seg [OF td] rt
    by (simp add: generateSessionToken_def Let_def)
  moreover have "verifySessionToken P secret (?h @ ''.'' @ ?b @ ''.'' @ tag) = None"
    if "CHR ''.'' \<notin> set tag" "tag \<noteq> ?t" for tag
    using verify_three_segments [OF hd bd, of P secret tag] seg [OF that(1)] that(2) by simp
  moreover have "verifySessionToken P secret (h @ ''.'' @ ?b @ ''.'' @ ?t) = None"
    if "CHR ''.'' \<notin> set h" "hmac_sha256 P secret (h @ ''.'' @ ?b) \<noteq> ?t" for h
    using verify_three_segments [OF that(1) bd, of P secret ?t] seg [OF td] that(2) by auto
  moreover have "verifySessionToken P secret (?h @ ''.'' @ b @ ''.'' @ ?t) = None"
    if "CHR ''.'' \<notin> set b" "hmac_sha256 P secret (?h @ ''.'' @ b) \<noteq> ?t" for b
    using verify_three_segments [OF hd that(1), of P secret ?t] seg [OF td] that(2) by auto
  ultimately show ?thesis by blast
qed

text \<open>Whatever follows a dot after the tag of a minted token is ignored.\<close>

lemma verify_ignores_trailing_segments:
  assumes enc: "\<forall>x. CHR ''.'' \<notin> set (to_base64url P x)"
    and mac: "\<forall>k m. CHR ''.'' \<notin> set (hmac_sha256 P k m)"
  shows "verifySessionToken P secret (generateSessionToken P secret now payload @ ''.'' @ extra)
           = verifySessionToken P secret (generateSessionToken P secret now payload)"
proof -
  let ?h = "tokenHeader P" and ?b = "tokenBody P now payload"
  let ?t = "hmac_sha256 P secret (?h @ ''.'' @ ?b)"
  have hd: "CHR ''.'' \<notin> set ?h" and bd: "CHR ''.'' \<notin> set ?b"
    using enc by (simp_all add: tokenHeader_def tokenBody_def)
  have td: "CHR ''.'' \<notin> set ?t"
    using mac by simp
  have "hd (split CHR ''.'' (?t @ ''.'' @ extra)) = ?t" "hd (split CHR ''.'' ?t) = ?t"
    using td by (simp_all add: split_at_separator split_no_separator)
  then show ?thesis
    using verify_three_segments [OF hd bd, of P secret "?t @ ''.'' @ extra"]
          verify_three_segments [OF hd bd, of P secret ?t]
    by (simp add: generateSessionToken_def Let_def)
qed

theorem token_roundtrip_adds_iat_witness:
  "JSON_parse samplePlatform (from_base64url samplePlatform (tokenBody samplePlatform 7 samplePayload))
     = Some (JObject (setProperty ''iat'' (JNumber 7) samplePayload))
   \<and> generateSessionToken samplePlatform ''k'' 7 samplePayload = ''header.body.k:headerbody''
   \<and> verifySessionToken samplePlatform ''k'' (generateSessionToken samplePlatform ''k'' 7 samplePayload)
       = Some (JObject (setProperty ''iat'' (JNumber 7) samplePayload))
   \<and> CHR ''.'' \<notin> set ''forged''
   \<and> ''forged'' \<noteq> hmac_sha256 samplePlatform ''k''
                      (tokenHeader samplePlatform @ ''.'' @ tokenBody samplePlatform 7 samplePayload)
   \<and> verifySessionToken samplePlatform ''k''
        (tokenHeader samplePlatform @ ''.'' @ tokenBody samplePlatform 7 samplePayload @ ''.'' @ ''forged'')
       = None"
proof -
  have enc: "\<forall>x. CHR ''.'' \<notin> set (to_base64url samplePlatform x)"
    by (simp add: samplePlatform_def)
  have mac: "\<forall>k m. CHR ''.'' \<notin> set (hmac_sha256 samplePlatform k m)"
    by (simp add: samplePlatform_def)
  have rt: "JSON_parse samplePlatform
              (from_base64url samplePlatform (tokenBody samplePlatform 7 samplePayload))
            = Some (JObject (setProperty ''iat'' (JNumber 7) samplePayload))"
    by code_simp
  have g: "generateSessionToken samplePlatform ''k'' 7 samplePayload = ''header.body.k:headerbody''"
    by code_simp
  have f: "CHR ''.'' \<notin> set ''forged''"
    "''forged'' \<noteq> hmac_sha256 samplePlatform ''k''
                      (tokenHeader samplePlatform @ ''.'' @ tokenBody samplePlatform 7 samplePayload)"
    by code_simp+
  note inst = token_roundtrip_adds_iat [OF enc mac rt, of "''k''"]
  from inst have v: "verifySessionToken samplePlatform ''k''
                       (generateSessionToken samplePlatform ''k'' 7 samplePayload)
                     = Some (JObject (setProperty ''iat'' (JNumber 7) samplePayload))"
    by blast
  from inst f have n: "verifySessionToken samplePlatform ''k''
        (tokenHeader samplePlatform @ ''.'' @ tokenBody samplePlatform 7 samplePayload @ ''.'' @ ''forged'')
       = None"
    by blast
  from rt g v f n show ?thesis by blast
qed

text \<open>
  On the stand-in platform: the verified value is the payload with \<open>iat\<close> appended, which
  is not the payload; and the minted token with \<open>.AAAA\<close> appended verifies to the same
  value instead of being rejected.
\<close>

theorem token_not_exact_and_trailing_bytes:
  "verifySessionToken samplePlatform ''k'' (generateSessionToken samplePlatform ''k'' 7 samplePayload)
     = Some (JObject (samplePayload @ [(''iat'', JNumber 7)]))
   \<and> verifySessionToken samplePlatform ''k'' (generateSessionToken samplePlatform ''k'' 7 samplePayload)
       \<noteq> Some (JObject samplePayload)
   \<and> verifySessionToken samplePlatform ''k''
        (generateSessionToken samplePlatform ''k'' 7 samplePayload @ ''.AAAA'')
       = Some (JObject (samplePayload @ [(''iat'', JNumber 7)]))"
  by code_simp

section \<open>Properties of Join\<close>

text \<open>Join never writes to the user table: it locks nothing.\<close>

lemma getOrCreateWaitingLobby_users:
  "getOrCreateWaitingLobby newLobbyId cid d = (l, d1) \<Longrightarrow> users d1 = users d"
  by (auto simp: getOrCreateWaitingLobby_def Let_def split: option.splits if_splits)

lemma JoinLobby_execute_users:
  assumes "JoinLobby_execute info now newLobbyId newPlayerId inp d = (r, d', evs)"
  shows "users d' = users d"
proof -
  obtain l d1 where g: "getOrCreateWaitingLobby newLobbyId (input_contractId inp) d = (l, d1)"
    by (cases "getOrCreateWaitingLobby newLobbyId (input_contractId inp) d")
  then have "users d1 = users d" by (rule getOrCreateWaitingLobby_users)
  with assms g show ?thesis
    by (auto simp: JoinLobby_execute_def addPlayer_def Let_def
             split: option.splits if_splits)
qed

lemma lobby_join_users:
  assumes "lobby_join now newLobbyId newPlayerId uid cid d = (r, d', evs)"
  shows "users d' = users d"
  using assms
  by (auto simp: lobby_join_def split: option.splits dest: JoinLobby_execute_users)

text \<open>
  The precheck of Join compares the entry fee with the total balance: for a user who is
  in no lobby and a contract that exists, Join fails with InsufficientFundsError exactly
  when \<open>balance < entryFee\<close>.
\<close>

lemma lobby_join_insufficient_iff:
  assumes "findByFirebaseUid d uid = Some u"
    and "findLobbyByUserId d (user_id u) = None"
    and "findContractById d cid = Some c"
  shows "(\<exists>req av. fst (lobby_join now newLobbyId newPlayerId uid cid d)
                      = Inl (InsufficientFundsError req av))
         \<longleftrightarrow> balance u < entryFee c"
    and "balance u < entryFee c \<Longrightarrow>
           lobby_join now newLobbyId newPlayerId uid cid d
             = (Inl (InsufficientFundsError (entryFee c) (balance u)), d, [])"
proof -
  show "balance u < entryFee c \<Longrightarrow>
           lobby_join now newLobbyId newPlayerId uid cid d
             = (Inl (InsufficientFundsError (entryFee c) (balance u)), d, [])"
    using assms
    by (simp add: lobby_join_def getUserByFirebaseUid_def getContractInfo_def
          JoinLobby_execute_def)
  then show "(\<exists>req av. fst (lobby_join now newLobbyId newPlayerId uid cid d)
                      = Inl (InsufficientFundsError req av))
         \<longleftrightarrow> balance u < entryFee c"
    using assms
    by (auto simp: lobby_join_def getUserByFirebaseUid_def getContractInfo_def
          JoinLobby_execute_def addPlayer_def Let_def split: option.splits prod.splits if_splits)
qed

text \<open>
  Claim C9. Join rejects with InsufficientFundsError whenever the user's available
  balance is below the entry fee. Dave has a balance of 100 of which 100 are locked, so
  his available balance is 0, below the entry fee of 50; he is in no lobby and the
  contract exists. Join admits him: it creates the lobby, adds him and broadcasts
  \<open>player_joined\<close>.
\<close>

theorem join_admits_user_without_available_funds:
  "findByFirebaseUid db0 ''fd'' = Some dave
   \<and> balance dave = 100 \<and> lockedBalance dave = 100 \<and> availableBalance dave = 0
   \<and> findContractById db0 ''c2'' = Some cheapMatch \<and> entryFee cheapMatch = 50
   \<and> lobby_join 0 ''l1'' ''p1'' ''fd'' ''c2'' db0
       = (Inr \<lparr>joined_lobbyId = ''l1'', position = 1, joined_currentPlayers = 1,
               joined_minPlayers = 2, joined_maxPlayers = 2, joined_isReady = False\<rparr>,
          db0\<lparr>lobbies := [\<lparr>lobby_id = ''l1'', lobby_contractId = ''c2'', lobby_status = WAITING\<rparr>],
              lobbyPlayers := [\<lparr>lobbyPlayer_id = ''p1'', lobbyId = ''l1'',
                                 lobbyPlayer_userId = ''D'', joinedAt = 0\<rparr>]\<rparr>,
          [(''l1'', player_joined ''p1'' ''Dave'' 0)])"
  by code_simp

end
